theory Spec2Isabelle
  imports Complex_Main
begin

section \<open>Signals and strategies (src/strategies/base\_strategy.py)\<close>

text \<open>
  Python floats are modelled as exact reals: rounding, infinities and NaN are outside the
  model. Every threshold comparison below is written as in the source.
\<close>

datatype py_error = IndexError | KeyError

datatype SignalType = BUY | SELL | HOLD

datatype SignalStrength = WEAK | MEDIUM | STRONG

text \<open>The integer carried by each member of the enum \<open>SignalStrength\<close>.\<close>

fun strength_value :: "SignalStrength \<Rightarrow> real" where
  "strength_value WEAK = 1"
| "strength_value MEDIUM = 2"
| "strength_value STRONG = 3"

text \<open>
  \<open>TradingSignal\<close>. The reason is a formatted string in the source; the model keeps its
  structure (the type \<open>'r\<close>) instead of the rendered text. The timestamp is a clock reading.
\<close>

record 'r TradingSignal =
  signal_type :: SignalType
  strength :: SignalStrength
  confidence :: real
  reason :: 'r
  timestamp :: nat

text \<open>
  \<open>BaseStrategy\<close>: the abstract method \<open>calculate_signal\<close> is a field, a function from the
  market data to an optional signal. \<open>performance_metrics\<close> is the dictionary of the source.
\<close>

record ('d, 'r) BaseStrategy =
  name :: string
  weight :: real
  enabled :: bool
  performance_metrics :: "string \<rightharpoonup> real"
  calculate_signal :: "'d \<Rightarrow> 'r TradingSignal option"

text \<open>
  \<open>update_performance\<close> mutates the dictionary; the model returns the strategy after the call
  together with the exception raised, if any (\<open>+=\<close> on a missing key raises KeyError after
  the earlier assignments have taken effect).
\<close>

definition update_performance ::
  "real \<Rightarrow> ('d, 'r) BaseStrategy \<Rightarrow> py_error option \<times> ('d, 'r) BaseStrategy" where
  "update_performance profit_loss s =
     (let m0 = performance_metrics s;
          m1 = (if m0 ''total_pnl'' = None
                then m0(''total_pnl'' \<mapsto> 0, ''trade_count'' \<mapsto> 0) else m0)
      in case m1 ''total_pnl'' of
           None \<Rightarrow> (Some KeyError, s\<lparr>performance_metrics := m1\<rparr>)
         | Some p \<Rightarrow>
             (let m2 = m1(''total_pnl'' \<mapsto> p + profit_loss)
              in case m2 ''trade_count'' of
                   None \<Rightarrow> (Some KeyError, s\<lparr>performance_metrics := m2\<rparr>)
                 | Some c \<Rightarrow> (None, s\<lparr>performance_metrics := m2(''trade_count'' \<mapsto> c + 1)\<rparr>)))"

definition get_win_rate :: "('d, 'r) BaseStrategy \<Rightarrow> real" where
  "get_win_rate s = (case performance_metrics s ''win_rate'' of None \<Rightarrow> 0 | Some v \<Rightarrow> v)"

definition adjust_weight :: "real \<Rightarrow> ('d, 'r) BaseStrategy \<Rightarrow> ('d, 'r) BaseStrategy" where
  "adjust_weight performance_factor s =
     s\<lparr>weight := max (1/10) (min 2 (weight s * performance_factor))\<rparr>"

section \<open>Strategy tree (src/strategies/strategy\_tree.py)\<close>

record history_entry =
  h_timestamp :: nat
  h_signal_type :: SignalType
  h_strength :: SignalStrength
  h_confidence :: real
  h_buy_score :: real
  h_sell_score :: real

text \<open>
  The strategies are held by value: two entries of the list are two objects (the source
  would adapt an object registered twice two times in one pass).
\<close>

record ('d, 'r) StrategyTree =
  strategies :: "('d, 'r) BaseStrategy list"
  signal_history :: "history_entry list"
  risk_threshold :: real

definition add_strategy ::
  "('d, 'r) BaseStrategy \<Rightarrow> ('d, 'r) StrategyTree \<Rightarrow> ('d, 'r) StrategyTree" where
  "add_strategy s tree = tree\<lparr>strategies := strategies tree @ [s]\<rparr>"

definition new_tree :: "('d, 'r) StrategyTree" where
  "new_tree = \<lparr>strategies = [], signal_history = [], risk_threshold = 6/10\<rparr>"

text \<open>First loop of \<open>calculate_composite_signal\<close>: one step per registered strategy.\<close>

definition collect_step ::
  "'d \<Rightarrow> ('r TradingSignal \<times> real) list \<times> real \<Rightarrow> ('d, 'r) BaseStrategy
     \<Rightarrow> ('r TradingSignal \<times> real) list \<times> real" where
  "collect_step data acc s =
     (if \<not> enabled s then acc
      else case calculate_signal s data of
             None \<Rightarrow> acc
           | Some sg \<Rightarrow> (fst acc @ [(sg, weight s)], snd acc + weight s))"

definition collect_signals ::
  "('d, 'r) BaseStrategy list \<Rightarrow> 'd \<Rightarrow> ('r TradingSignal \<times> real) list \<times> real" where
  "collect_signals ss data = foldl (collect_step data) ([], 0) ss"

text \<open>Second loop: the accumulators \<open>buy_score\<close>, \<open>sell_score\<close>, \<open>confidence_sum\<close>, \<open>reasons\<close>.\<close>

record 'r scores =
  buy_score :: real
  sell_score :: real
  confidence_sum :: real
  reasons :: "('r \<times> real) list"

definition score_step :: "'r scores \<Rightarrow> 'r TradingSignal \<times> real \<Rightarrow> 'r scores" where
  "score_step acc sw =
     (let signal = fst sw; w = snd sw;
          weighted_confidence = confidence signal * w
      in \<lparr>buy_score = (if signal_type signal = BUY
                        then buy_score acc + weighted_confidence * strength_value (strength signal)
                        else buy_score acc),
          sell_score = (if signal_type signal = BUY then sell_score acc
                        else if signal_type signal = SELL
                        then sell_score acc + weighted_confidence * strength_value (strength signal)
                        else sell_score acc),
          confidence_sum = confidence_sum acc + weighted_confidence,
          reasons = reasons acc @ [(reason signal, w)]\<rparr>)"

definition accumulate_scores :: "('r TradingSignal \<times> real) list \<Rightarrow> 'r scores" where
  "accumulate_scores signals =
     foldl score_step \<lparr>buy_score = 0, sell_score = 0, confidence_sum = 0, reasons = []\<rparr> signals"

definition normalize_scores :: "real \<Rightarrow> 'r scores \<Rightarrow> 'r scores" where
  "normalize_scores total_weight sc =
     (if total_weight > 0
      then sc\<lparr>buy_score := buy_score sc / total_weight,
              sell_score := sell_score sc / total_weight,
              confidence_sum := confidence_sum sc / total_weight\<rparr>
      else sc)"

text \<open>The decision on the normalised scores: direction and strength.\<close>

definition decide :: "real \<Rightarrow> 'r scores \<Rightarrow> SignalType \<times> SignalStrength" where
  "decide threshold sc =
     (if buy_score sc > sell_score sc \<and> buy_score sc > threshold
      then (BUY, if buy_score sc > 8/10 then STRONG
                 else if buy_score sc > 7/10 then MEDIUM else WEAK)
      else if sell_score sc > buy_score sc \<and> sell_score sc > threshold
      then (SELL, if sell_score sc > 8/10 then STRONG
                  else if sell_score sc > 7/10 then MEDIUM else WEAK)
      else (HOLD, WEAK))"

text \<open>
  \<open>calculate_composite_signal\<close>: returns the optional composite signal and the tree with
  its signal history extended. \<open>now\<close> is the reading of \<open>pd.Timestamp.now()\<close>.
\<close>

definition calculate_composite_signal ::
  "('d, 'r) StrategyTree \<Rightarrow> 'd \<Rightarrow> nat
     \<Rightarrow> ('r \<times> real) list TradingSignal option \<times> ('d, 'r) StrategyTree" where
  "calculate_composite_signal tree data now =
     (if strategies tree = [] then (None, tree)
      else
        let collected = collect_signals (strategies tree) data;
            signals = fst collected; total_weight = snd collected
        in if signals = [] then (None, tree)
           else
             let sc = normalize_scores total_weight (accumulate_scores signals);
                 dec = decide (risk_threshold tree) sc
             in if fst dec = HOLD then (None, tree)
                else
                  (Some \<lparr>signal_type = fst dec, strength = snd dec,
                         confidence = confidence_sum sc, reason = reasons sc,
                         timestamp = now\<rparr>,
                   tree\<lparr>signal_history := signal_history tree @
                          [\<lparr>h_timestamp = now, h_signal_type = fst dec, h_strength = snd dec,
                            h_confidence = confidence_sum sc, h_buy_score = buy_score sc,
                            h_sell_score = sell_score sc\<rparr>]\<rparr>))"

definition optimize_step :: "('d, 'r) BaseStrategy \<Rightarrow> ('d, 'r) BaseStrategy" where
  "optimize_step s =
     (let win_rate = get_win_rate s
      in if win_rate > 6/10 then adjust_weight (11/10) s
         else if win_rate < 4/10 then adjust_weight (9/10) s
         else s)"

definition optimize_weights :: "('d, 'r) StrategyTree \<Rightarrow> ('d, 'r) StrategyTree" where
  "optimize_weights tree = tree\<lparr>strategies := map optimize_step (strategies tree)\<rparr>"

section \<open>Chan-theory strategy (src/strategies/changlun\_strategy.py)\<close>

datatype TrendDirection = UP | DOWN | SIDEWAYS

text \<open>
  The member \<open>MEDIUM\<close> of \<open>RelativePosition\<close> is written \<open>MEDIUM_POS\<close>, since
  \<open>SignalStrength\<close> has a member of the same name.
\<close>

datatype RelativePosition = HIGH | MEDIUM_HIGH | MEDIUM_POS | MEDIUM_LOW | LOW

datatype BuyingSellPoint = BUY_1 | BUY_2 | BUY_3 | SELL_1 | SELL_2 | SELL_3

text \<open>
  One row of the data frame, with the columns the strategy reads. \<open>label\<close> is the row's
  entry in \<open>data.index\<close>.
\<close>

record Bar =
  label :: nat
  high :: real
  low :: real
  close :: real
  MA_5 :: real
  MA_20 :: real
  MA_60 :: real
  MACD :: real
  RSI :: real

text \<open>The parameters set in \<open>ChangLunStrategy.__init__\<close>.\<close>

definition min_k_for_stroke :: nat where "min_k_for_stroke = 5"
definition position_lookback :: nat where "position_lookback = 120"
definition param_rsi_overbought :: real where "param_rsi_overbought = 80"
definition param_rsi_oversold :: real where "param_rsi_oversold = 20"

datatype fractal_type = top | bottom

text \<open>The dictionaries built for a fractal and for a stroke, as records.\<close>

record fractal =
  f_index :: nat
  f_type :: fractal_type
  f_price :: real
  f_timestamp :: nat

datatype stroke_direction = up | down

record stroke =
  start_fractal :: fractal
  end_fractal :: fractal
  direction :: stroke_direction
  stroke_strength :: real
  start_index :: nat
  end_index :: nat

text \<open>
  \<open>_identify_fractals\<close>: the body of the loop at index \<open>i\<close>, for \<open>i\<close> in
  \<open>range(2, len(data) - 2)\<close>, where all five rows read exist.
\<close>

definition fractals_at :: "Bar list \<Rightarrow> nat \<Rightarrow> fractal list" where
  "fractals_at data i =
     (let h = high (data ! i); l = low (data ! i)
      in (if h > high (data ! (i - 2)) \<and> h > high (data ! (i - 1)) \<and>
             h > high (data ! (i + 1)) \<and> h > high (data ! (i + 2))
          then [\<lparr>f_index = i, f_type = top, f_price = h, f_timestamp = label (data ! i)\<rparr>]
          else []) @
         (if l < low (data ! (i - 2)) \<and> l < low (data ! (i - 1)) \<and>
             l < low (data ! (i + 1)) \<and> l < low (data ! (i + 2))
          then [\<lparr>f_index = i, f_type = bottom, f_price = l, f_timestamp = label (data ! i)\<rparr>]
          else []))"

definition identify_fractals :: "Bar list \<Rightarrow> fractal list" where
  "identify_fractals data = concat (map (fractals_at data) [2 ..< length data - 2])"

text \<open>
  \<open>_identify_strokes\<close>: the loop over \<open>fractals[1:]\<close> with the anchor \<open>current_fractal\<close>.
  The quotient is that of the reals (the source divides NumPy floats, which does not raise
  on a zero price).
\<close>

fun strokes_loop :: "fractal \<Rightarrow> fractal list \<Rightarrow> stroke list" where
  "strokes_loop current_fractal [] = []"
| "strokes_loop current_fractal (next_fractal # rest) =
     (if f_type current_fractal \<noteq> f_type next_fractal \<and>
         int (f_index next_fractal) - int (f_index current_fractal) \<ge> int min_k_for_stroke
      then
        (if f_type current_fractal = bottom \<and> f_type next_fractal = top
         then \<lparr>start_fractal = current_fractal, end_fractal = next_fractal, direction = up,
               stroke_strength =
                 (f_price next_fractal - f_price current_fractal) / f_price current_fractal,
               start_index = f_index current_fractal, end_index = f_index next_fractal\<rparr>
         else \<lparr>start_fractal = current_fractal, end_fractal = next_fractal, direction = down,
               stroke_strength =
                 (f_price current_fractal - f_price next_fractal) / f_price current_fractal,
               start_index = f_index current_fractal, end_index = f_index next_fractal\<rparr>)
        # strokes_loop next_fractal rest
      else strokes_loop current_fractal rest)"

definition identify_strokes :: "fractal list \<Rightarrow> stroke list" where
  "identify_strokes fractals =
     (if length fractals < 2 then []
      else strokes_loop (hd fractals) (tl fractals))"

text \<open>\<open>data.iloc[-1]\<close>: the last row, IndexError on an empty frame.\<close>

definition iloc_last :: "Bar list \<Rightarrow> py_error + Bar" where
  "iloc_last data = (if data = [] then Inl IndexError else Inr (last data))"

definition count_direction :: "stroke_direction \<Rightarrow> stroke list \<Rightarrow> nat" where
  "count_direction d ss = length (filter (\<lambda>s. direction s = d) ss)"

definition analyze_trend :: "Bar list \<Rightarrow> stroke list \<Rightarrow> py_error + TrendDirection" where
  "analyze_trend data strokes =
     (if length strokes < 3 then Inr SIDEWAYS
      else
        let recent_strokes = drop (length strokes - 3) strokes;
            up_strokes = count_direction up recent_strokes;
            down_strokes = count_direction down recent_strokes
        in case iloc_last data of
             Inl e \<Rightarrow> Inl e
           | Inr latest \<Rightarrow>
               let ma5 = MA_5 latest; ma20 = MA_20 latest; ma60 = MA_60 latest;
                   ma_trend_score =
                     (if ma5 > ma20 \<and> ma20 > ma60 then 1
                      else if ma5 < ma20 \<and> ma20 < ma60 then -1 else 0 :: real);
                   stroke_trend_score =
                     (if up_strokes > down_strokes then 1
                      else if down_strokes > up_strokes then -1 else 0 :: real);
                   combined_score = (stroke_trend_score + ma_trend_score) / 2
               in if combined_score > 5/10 then Inr UP
                  else if combined_score < - (5/10) then Inr DOWN
                  else Inr SIDEWAYS)"

text \<open>
  \<open>_calculate_relative_position\<close>: \<open>data.tail(n)\<close> keeps the last \<open>n\<close> rows, all of them
  when there are fewer; there is no check of the length.
\<close>

definition tail :: "nat \<Rightarrow> 'a list \<Rightarrow> 'a list" where
  "tail n xs = drop (length xs - n) xs"

definition classify_position :: "real \<Rightarrow> RelativePosition" where
  "classify_position position_pct =
     (if position_pct \<ge> 8/10 then HIGH
      else if position_pct \<ge> 6/10 then MEDIUM_HIGH
      else if position_pct \<ge> 4/10 then MEDIUM_POS
      else if position_pct \<ge> 2/10 then MEDIUM_LOW
      else LOW)"

definition calculate_relative_position :: "Bar list \<Rightarrow> py_error + RelativePosition" where
  "calculate_relative_position data =
     (let lookback_data = tail position_lookback data
      in case iloc_last data of
           Inl e \<Rightarrow> Inl e
         | Inr latest \<Rightarrow>
             let current_price = close latest;
                 high_price = Max (set (map high lookback_data));
                 low_price = Min (set (map low lookback_data));
                 position_pct =
                   (if high_price = low_price then 5/10
                    else (current_price - low_price) / (high_price - low_price))
             in Inr (classify_position position_pct))"

text \<open>\<open>strokes[-2]\<close>, read only where the list has at least two entries.\<close>

definition prev_of :: "'a list \<Rightarrow> 'a" where
  "prev_of xs = xs ! (length xs - 2)"

definition is_second_buy_point :: "stroke list \<Rightarrow> bool" where
  "is_second_buy_point strokes =
     (if length strokes < 3 then False
      else
        let current_stroke = last strokes
        in if direction current_stroke = down
           then (let retracement = stroke_strength current_stroke
                 in 3/10 \<le> retracement \<and> retracement \<le> 618/1000)
           else False)"

definition is_third_buy_point :: "stroke list \<Rightarrow> bool" where
  "is_third_buy_point strokes =
     (if length strokes < 4 then False
      else
        let recent_highs = map (\<lambda>s. f_price (end_fractal s))
                             (filter (\<lambda>s. direction s = up) (drop (length strokes - 4) strokes))
        in if length recent_highs \<ge> 2 then last recent_highs > prev_of recent_highs
           else False)"

definition is_second_sell_point :: "stroke list \<Rightarrow> bool" where
  "is_second_sell_point strokes =
     (if length strokes < 3 then False
      else
        let current_stroke = last strokes
        in if direction current_stroke = up
           then (let rebound = stroke_strength current_stroke
                 in 3/10 \<le> rebound \<and> rebound \<le> 618/1000)
           else False)"

definition is_third_sell_point :: "stroke list \<Rightarrow> bool" where
  "is_third_sell_point strokes =
     (if length strokes < 4 then False
      else
        let recent_lows = map (\<lambda>s. f_price (end_fractal s))
                            (filter (\<lambda>s. direction s = down) (drop (length strokes - 4) strokes))
        in if length recent_lows \<ge> 2 then last recent_lows < prev_of recent_lows
           else False)"

definition identify_buy_sell_points :: "stroke list \<Rightarrow> TrendDirection \<Rightarrow> BuyingSellPoint list" where
  "identify_buy_sell_points strokes trend =
     (if length strokes < 2 then []
      else
        let latest_stroke = last strokes
        in if trend = UP then
             (if direction latest_stroke = down then
                (if length strokes \<ge> 3 then
                   (let prev_stroke = prev_of strokes
                    in if direction prev_stroke = up then
                         (if is_second_buy_point strokes then [BUY_2]
                          else if is_third_buy_point strokes then [BUY_3]
                          else [])
                       else [])
                 else [])
              else [])
           else if trend = DOWN then
             (if direction latest_stroke = up then
                (if length strokes \<ge> 3 then
                   (let prev_stroke = prev_of strokes
                    in if direction prev_stroke = down then
                         (if is_second_sell_point strokes then [SELL_2]
                          else if is_third_sell_point strokes then [SELL_3]
                          else [])
                       else [])
                 else [])
              else [])
           else [])"

text \<open>
  \<open>_detect_divergence\<close>. The two labels are the strings the source returns. \<open>macd[i]\<close>
  reads the MACD column by position and raises IndexError past its end.
\<close>

datatype divergence_label = bullish_divergence | bearish_divergence

definition macd_at :: "Bar list \<Rightarrow> nat \<Rightarrow> py_error + real" where
  "macd_at data i = (if i < length data then Inr (MACD (data ! i)) else Inl IndexError)"

definition detect_divergence :: "Bar list \<Rightarrow> stroke list \<Rightarrow> py_error + divergence_label option" where
  "detect_divergence data strokes =
     (if length strokes < 2 \<or> length data < 50 then Inr None
      else
        let latest_stroke = last strokes; prev_stroke = prev_of strokes
        in if direction latest_stroke \<noteq> direction prev_stroke then Inr None
           else
             let price1 = f_price (end_fractal prev_stroke);
                 price2 = f_price (end_fractal latest_stroke)
             in case macd_at data (end_index prev_stroke) of
                  Inl e \<Rightarrow> Inl e
                | Inr macd1 \<Rightarrow>
                    (case macd_at data (end_index latest_stroke) of
                       Inl e \<Rightarrow> Inl e
                     | Inr macd2 \<Rightarrow>
                         (if direction latest_stroke = up
                          then (if price2 > price1 \<and> macd2 < macd1
                                then Inr (Some bullish_divergence) else Inr None)
                          else (if price2 < price1 \<and> macd2 > macd1
                                then Inr (Some bearish_divergence) else Inr None))))"

text \<open>\<open>_monitor_emotion_indicators\<close> and the dictionary it returns.\<close>

record emotion_signals =
  rsi_overbought :: bool
  rsi_oversold :: bool
  extreme_emotion :: bool
  rsi_value :: real

definition monitor_emotion_indicators :: "Bar list \<Rightarrow> py_error + emotion_signals" where
  "monitor_emotion_indicators data =
     (case iloc_last data of
        Inl e \<Rightarrow> Inl e
      | Inr latest \<Rightarrow>
          let rsi = RSI latest
          in Inr \<lparr>rsi_overbought = rsi > param_rsi_overbought,
                  rsi_oversold = rsi < param_rsi_oversold,
                  extreme_emotion = (rsi > 90 \<or> rsi < 10),
                  rsi_value = rsi\<rparr>)"

text \<open>
  \<open>_make_comprehensive_decision\<close>. Each entry appended to \<open>reasons\<close> in the source is one
  constructor of \<open>reason_part\<close>; the state of the six steps is the record \<open>decision_state\<close>.
\<close>

datatype reason_part =
    TrendUpWithPoints "BuyingSellPoint list"
  | TrendDownWithPoints "BuyingSellPoint list"
  | PositionLowSafetyMargin
  | PositionHighCaution
  | PositionHighLimitedProfit
  | BottomDivergenceConfirmsBuy
  | TopDivergenceConfirmsSell
  | RsiExtremeOversold real
  | RsiExtremeOverbought real

record decision_state =
  d_signal_type :: SignalType
  d_strength :: SignalStrength
  d_confidence :: real
  d_reasons :: "reason_part list"

text \<open>The locals before step 1: hold, weak, confidence 0.5, no reason.\<close>

definition initial_state :: decision_state where
  "initial_state =
     \<lparr>d_signal_type = HOLD, d_strength = WEAK, d_confidence = 5/10, d_reasons = []\<rparr>"

definition step1_trend :: "TrendDirection \<Rightarrow> BuyingSellPoint list \<Rightarrow> decision_state \<Rightarrow> decision_state" where
  "step1_trend trend buy_sell_points st =
     (if trend = UP \<and> list_ex (\<lambda>bp. bp \<in> set [BUY_2, BUY_3]) buy_sell_points
      then st\<lparr>d_signal_type := BUY,
              d_reasons := d_reasons st @ [TrendUpWithPoints buy_sell_points],
              d_confidence := d_confidence st + 2/10\<rparr>
      else if trend = DOWN \<and> list_ex (\<lambda>bp. bp \<in> set [SELL_2, SELL_3]) buy_sell_points
      then st\<lparr>d_signal_type := SELL,
              d_reasons := d_reasons st @ [TrendDownWithPoints buy_sell_points],
              d_confidence := d_confidence st + 2/10\<rparr>
      else st)"

definition step2_position :: "RelativePosition \<Rightarrow> decision_state \<Rightarrow> decision_state" where
  "step2_position position st =
     (if d_signal_type st = BUY then
        (if position \<in> set [LOW, MEDIUM_LOW]
         then st\<lparr>d_confidence := d_confidence st + 2/10,
                 d_reasons := d_reasons st @ [PositionLowSafetyMargin]\<rparr>
         else if position = HIGH
         then st\<lparr>d_confidence := d_confidence st - 1/10,
                 d_reasons := d_reasons st @ [PositionHighCaution]\<rparr>
         else st)
      else if d_signal_type st = SELL then
        (if position \<in> set [HIGH, MEDIUM_HIGH]
         then st\<lparr>d_confidence := d_confidence st + 2/10,
                 d_reasons := d_reasons st @ [PositionHighLimitedProfit]\<rparr>
         else st)
      else st)"

definition step3_divergence :: "divergence_label option \<Rightarrow> decision_state \<Rightarrow> decision_state" where
  "step3_divergence divergence st =
     (case divergence of
        None \<Rightarrow> st
      | Some dv \<Rightarrow>
          if dv = bearish_divergence \<and> d_signal_type st = BUY
          then st\<lparr>d_confidence := d_confidence st + 15/100,
                  d_reasons := d_reasons st @ [BottomDivergenceConfirmsBuy]\<rparr>
          else if dv = bullish_divergence \<and> d_signal_type st = SELL
          then st\<lparr>d_confidence := d_confidence st + 15/100,
                  d_reasons := d_reasons st @ [TopDivergenceConfirmsSell]\<rparr>
          else st)"

definition step4_emotion :: "emotion_signals \<Rightarrow> decision_state \<Rightarrow> decision_state" where
  "step4_emotion emotion st =
     (if extreme_emotion emotion then
        (if rsi_oversold emotion \<and> d_signal_type st = BUY
         then st\<lparr>d_confidence := d_confidence st + 1/10, d_strength := STRONG,
                 d_reasons := d_reasons st @ [RsiExtremeOversold (rsi_value emotion)]\<rparr>
         else if rsi_overbought emotion \<and> d_signal_type st = SELL
         then st\<lparr>d_confidence := d_confidence st + 1/10, d_strength := STRONG,
                 d_reasons := d_reasons st @ [RsiExtremeOverbought (rsi_value emotion)]\<rparr>
         else st)
      else st)"

definition step5_strength :: "decision_state \<Rightarrow> decision_state" where
  "step5_strength st =
     (if d_confidence st \<ge> 8/10 then st\<lparr>d_strength := STRONG\<rparr>
      else if d_confidence st \<ge> 6/10 then st\<lparr>d_strength := MEDIUM\<rparr>
      else st)"

definition step6_emit :: "nat \<Rightarrow> decision_state \<Rightarrow> reason_part list TradingSignal option" where
  "step6_emit now st =
     (if d_signal_type st = HOLD \<or> d_confidence st < 5/10 then None
      else Some \<lparr>signal_type = d_signal_type st, strength = d_strength st,
                 confidence = min (d_confidence st) 1, reason = d_reasons st,
                 timestamp = now\<rparr>)"

definition make_comprehensive_decision ::
  "TrendDirection \<Rightarrow> RelativePosition \<Rightarrow> BuyingSellPoint list \<Rightarrow> divergence_label option
     \<Rightarrow> emotion_signals \<Rightarrow> nat \<Rightarrow> reason_part list TradingSignal option" where
  "make_comprehensive_decision trend position buy_sell_points divergence emotion now =
     step6_emit now
       (step5_strength
         (step4_emotion emotion
           (step3_divergence divergence
             (step2_position position
               (step1_trend trend buy_sell_points initial_state)))))"

text \<open>\<open>ChangLunStrategy.calculate_signal\<close>: the pipeline, with the exceptions of its parts.\<close>

definition changlun_calculate_signal ::
  "Bar list \<Rightarrow> nat \<Rightarrow> py_error + reason_part list TradingSignal option" where
  "changlun_calculate_signal data now =
     (if length data < position_lookback then Inr None
      else
        let fractals = identify_fractals data;
            strokes = identify_strokes fractals
        in if strokes = [] then Inr None
           else
             case analyze_trend data strokes of
               Inl e \<Rightarrow> Inl e
             | Inr trend_direction \<Rightarrow>
                 (case calculate_relative_position data of
                    Inl e \<Rightarrow> Inl e
                  | Inr relative_position \<Rightarrow>
                      (let buy_sell_points = identify_buy_sell_points strokes trend_direction
                       in (case detect_divergence data strokes of
                             Inl e \<Rightarrow> Inl e
                           | Inr divergence_signal \<Rightarrow>
                               (case monitor_emotion_indicators data of
                                  Inl e \<Rightarrow> Inl e
                                | Inr emotion_signal \<Rightarrow>
                                    Inr (make_comprehensive_decision trend_direction
                                           relative_position buy_sell_points divergence_signal
                                           emotion_signal now))))))"

text \<open>
  \<open>get_strategy_status\<close>: the dictionary with the single key \<open>status\<close> below 50 rows,
  the full report otherwise.
\<close>

record status_report =
  st_trend_direction :: TrendDirection
  st_relative_position :: RelativePosition
  st_recent_strokes_count :: nat
  st_divergence_signal :: "divergence_label option"
  st_rsi_value :: real
  st_emotion_extreme :: bool
  st_last_fractal :: "fractal option"
  st_last_stroke :: "stroke option"

datatype strategy_status = insufficient_data | Report status_report

definition last_option :: "'a list \<Rightarrow> 'a option" where
  "last_option xs = (if xs = [] then None else Some (last xs))"

definition get_strategy_status :: "Bar list \<Rightarrow> py_error + strategy_status" where
  "get_strategy_status data =
     (if length data < 50 then Inr insufficient_data
      else
        let fractals = identify_fractals data;
            strokes = identify_strokes fractals
        in case analyze_trend data strokes of
             Inl e \<Rightarrow> Inl e
           | Inr trend \<Rightarrow>
               (case calculate_relative_position data of
                  Inl e \<Rightarrow> Inl e
                | Inr position \<Rightarrow>
                    (case detect_divergence data strokes of
                       Inl e \<Rightarrow> Inl e
                     | Inr divergence \<Rightarrow>
                         (case monitor_emotion_indicators data of
                            Inl e \<Rightarrow> Inl e
                          | Inr emotion \<Rightarrow>
                              Inr (Report
                                \<lparr>st_trend_direction = trend,
                                 st_relative_position = position,
                                 st_recent_strokes_count = length strokes,
                                 st_divergence_signal = divergence,
                                 st_rsi_value = rsi_value emotion,
                                 st_emotion_extreme = extreme_emotion emotion,
                                 st_last_fractal = last_option fractals,
                                 st_last_stroke = last_option strokes\<rparr>)))))"

text \<open>
  The range the data model gives a contributing signal and its weight: confidence in
  [0, 1], weight in [0.1, 2.0].
\<close>

definition good_pair :: "'r TradingSignal \<times> real \<Rightarrow> bool" where
  "good_pair sw =
     (0 \<le> confidence (fst sw) \<and> confidence (fst sw) \<le> 1 \<and> 1/10 \<le> snd sw \<and> snd sw \<le> 2)"

section \<open>Concrete inputs\<close>

text \<open>
  The tree of Scenario D: two enabled sources of weight 1.0, the first always emitting
  buy/strong/0.9, the second sell/weak/0.9, and the default threshold 0.6.
\<close>

definition constant_source ::
  "string \<Rightarrow> SignalType \<Rightarrow> SignalStrength \<Rightarrow> real \<Rightarrow> 'r \<Rightarrow> nat \<Rightarrow> ('d, 'r) BaseStrategy" where
  "constant_source nm ty st c r t =
     \<lparr>name = nm, weight = 1, enabled = True, performance_metrics = Map.empty,
      calculate_signal = (\<lambda>_. Some \<lparr>signal_type = ty, strength = st, confidence = c,
                                     reason = r, timestamp = t\<rparr>)\<rparr>"

definition scenario_D_tree :: "'r \<Rightarrow> 'r \<Rightarrow> nat \<Rightarrow> nat \<Rightarrow> ('d, 'r) StrategyTree" where
  "scenario_D_tree r1 r2 t1 t2 =
     add_strategy (constant_source ''seller'' SELL WEAK (9/10) r2 t2)
       (add_strategy (constant_source ''buyer'' BUY STRONG (9/10) r1 t1) new_tree)"

text \<open>A source with a recorded win rate, and a tree of three of them.\<close>

definition rated_source :: "string \<Rightarrow> real \<Rightarrow> real \<Rightarrow> (unit, unit) BaseStrategy" where
  "rated_source nm w rate =
     \<lparr>name = nm, weight = w, enabled = True,
      performance_metrics = [''win_rate'' \<mapsto> rate],
      calculate_signal = (\<lambda>_. None)\<rparr>"

definition rated_tree :: "(unit, unit) StrategyTree" where
  "rated_tree =
     add_strategy (rated_source ''c'' 1 (5/10))
       (add_strategy (rated_source ''b'' 1 (2/10))
         (add_strategy (rated_source ''a'' 1 (65/100)) new_tree))"

text \<open>A source as \<open>BaseStrategy.__init__\<close> leaves it, with no metric recorded.\<close>

definition fresh_source :: "string \<Rightarrow> real \<Rightarrow> (unit, unit) BaseStrategy" where
  "fresh_source nm w =
     \<lparr>name = nm, weight = w, enabled = True, performance_metrics = Map.empty,
      calculate_signal = (\<lambda>_. None)\<rparr>"

text \<open>Fractals and strokes of the scenarios.\<close>

definition mk_fractal :: "nat \<Rightarrow> fractal_type \<Rightarrow> real \<Rightarrow> fractal" where
  "mk_fractal i ty p = \<lparr>f_index = i, f_type = ty, f_price = p, f_timestamp = i\<rparr>"

text \<open>
  Scenario C: exactly two strokes, up 100 to 110 (strength 0.10), then down 110 to 66
  (strength 0.40), as \<open>_identify_strokes\<close> builds them from three fractals.
\<close>

definition scenario_C_strokes :: "stroke list" where
  "scenario_C_strokes =
     identify_strokes [mk_fractal 2 bottom 100, mk_fractal 10 top 110, mk_fractal 20 bottom 66]"

text \<open>The same two strokes after an earlier down-stroke 120 to 100: three strokes.\<close>

definition three_strokes :: "stroke list" where
  "three_strokes =
     identify_strokes [mk_fractal 2 top 120, mk_fractal 8 bottom 100,
                       mk_fractal 15 top 110, mk_fractal 22 bottom 66]"

text \<open>
  Four strokes up, down, up, down with a higher second high (100, then 110) and a last
  retracement of 0.40: both buy tests pass. The mirror image for the sell tests.
\<close>

definition both_buy_strokes :: "stroke list" where
  "both_buy_strokes =
     identify_strokes [mk_fractal 2 bottom 90, mk_fractal 8 top 100, mk_fractal 14 bottom 95,
                       mk_fractal 20 top 110, mk_fractal 26 bottom 66]"

definition both_sell_strokes :: "stroke list" where
  "both_sell_strokes =
     identify_strokes [mk_fractal 2 top 110, mk_fractal 8 bottom 100, mk_fractal 14 top 105,
                       mk_fractal 20 bottom 90, mk_fractal 26 top 126]"

text \<open>Strokes written out directly, for lists that \<open>_identify_strokes\<close> does not build.\<close>

definition mk_stroke :: "stroke_direction \<Rightarrow> fractal \<Rightarrow> fractal \<Rightarrow> stroke" where
  "mk_stroke d a b =
     \<lparr>start_fractal = a, end_fractal = b, direction = d,
      stroke_strength = (if d = up then (f_price b - f_price a) / f_price a
                         else (f_price a - f_price b) / f_price a),
      start_index = f_index a, end_index = f_index b\<rparr>"

definition two_up_strokes :: "stroke list" where
  "two_up_strokes =
     [mk_stroke up (mk_fractal 2 bottom 8) (mk_fractal 10 top 10),
      mk_stroke up (mk_fractal 12 bottom 9) (mk_fractal 20 top 12)]"

definition two_down_strokes :: "stroke list" where
  "two_down_strokes =
     [mk_stroke down (mk_fractal 2 top 14) (mk_fractal 10 bottom 12),
      mk_stroke down (mk_fractal 12 top 13) (mk_fractal 20 bottom 10)]"

definition up_up_down_strokes :: "stroke list" where
  "up_up_down_strokes =
     [mk_stroke up (mk_fractal 2 bottom 80) (mk_fractal 8 top 100),
      mk_stroke up (mk_fractal 10 bottom 95) (mk_fractal 16 top 110),
      mk_stroke down (mk_fractal 16 top 110) (mk_fractal 22 bottom 66)]"

text \<open>
  Fifty rows with every price and average at 10 and the RSI at 50; the MACD is 5 at row 10,
  3 at row 20 and 0 elsewhere.
\<close>

definition flat_bar :: "nat \<Rightarrow> real \<Rightarrow> real \<Rightarrow> Bar" where
  "flat_bar i m r =
     \<lparr>label = i, high = 10, low = 10, close = 10, MA_5 = 10, MA_20 = 10, MA_60 = 10,
      MACD = m, RSI = r\<rparr>"

definition fifty_bars :: "Bar list" where
  "fifty_bars =
     map (\<lambda>i. flat_bar i (if i = 10 then 5 else if i = 20 then 3 else 0) 50) [0 ..< 50]"

text \<open>The same rows with the MACD 3 at row 10 and 5 at row 20.\<close>

definition fifty_bars_rising :: "Bar list" where
  "fifty_bars_rising =
     map (\<lambda>i. flat_bar i (if i = 10 then 3 else if i = 20 then 5 else 0) 50) [0 ..< 50]"

definition calm_emotion :: emotion_signals where
  "calm_emotion =
     \<lparr>rsi_overbought = False, rsi_oversold = False, extreme_emotion = False, rsi_value = 50\<rparr>"

text \<open>The reading of the emotion monitor on a last row with RSI 5.\<close>

definition panic_emotion :: emotion_signals where
  "panic_emotion =
     \<lparr>rsi_overbought = False, rsi_oversold = True, extreme_emotion = True, rsi_value = 5\<rparr>"

section \<open>Fusion: Scenario D\<close>

lemma scenario_D_collected:
  "collect_signals (strategies (scenario_D_tree r1 r2 t1 t2)) data =
     ([(\<lparr>signal_type = BUY, strength = STRONG, confidence = 9/10, reason = r1, timestamp = t1\<rparr>, 1),
       (\<lparr>signal_type = SELL, strength = WEAK, confidence = 9/10, reason = r2, timestamp = t2\<rparr>, 1)],
      2)"
  by (simp add: scenario_D_tree_def add_strategy_def new_tree_def constant_source_def
      collect_signals_def collect_step_def)

lemma scenario_D_scores:
  "normalize_scores 2 (accumulate_scores
     [(\<lparr>signal_type = BUY, strength = STRONG, confidence = 9/10, reason = r1, timestamp = t1\<rparr>, 1),
      (\<lparr>signal_type = SELL, strength = WEAK, confidence = 9/10, reason = r2, timestamp = t2\<rparr>, 1)]) =
   \<lparr>buy_score = 27/20, sell_score = 9/20, confidence_sum = 9/10, reasons = [(r1, 1), (r2, 1)]\<rparr>"
  by (simp add: normalize_scores_def accumulate_scores_def score_step_def)

lemma scenario_D_nonempty: "strategies (scenario_D_tree r1 r2 t1 t2) \<noteq> []"
  by (simp add: scenario_D_tree_def add_strategy_def)

lemma scenario_D_threshold: "risk_threshold (scenario_D_tree r1 r2 t1 t2) = 6/10"
  by (simp add: scenario_D_tree_def add_strategy_def new_tree_def)

lemma scenario_D_result:
  "fst (calculate_composite_signal (scenario_D_tree r1 r2 t1 t2) data now) =
     Some \<lparr>signal_type = BUY, strength = STRONG, confidence = 9/10,
           reason = [(r1, 1), (r2, 1)], timestamp = now\<rparr>"
  unfolding calculate_composite_signal_def
  by (simp add: scenario_D_nonempty scenario_D_threshold scenario_D_collected
      scenario_D_scores decide_def Let_def)

text \<open>
  C1 (as stated): in Scenario D the fusion yields no composite signal. The code yields a
  signal: the buy score 0.9 * 1.0 * 3 / 2 = 1.35 exceeds both the sell score 0.45 and the
  threshold 0.6.
\<close>

theorem C1_scenario_D_counterexample:
  "fst (calculate_composite_signal
          (scenario_D_tree ''b'' ''s'' 0 0 :: (unit, string) StrategyTree) () 0) \<noteq> None"
  by (simp add: scenario_D_result)

text \<open>
  C1 (amended): in Scenario D the fusion yields a composite buy signal of strength strong
  with confidence 0.9, whatever the reasons and timestamps of the two contributing signals.
\<close>

theorem C1_scenario_D_buy_strong:
  "fst (calculate_composite_signal (scenario_D_tree r1 r2 t1 t2) data now) =
     Some \<lparr>signal_type = BUY, strength = STRONG, confidence = 9/10,
           reason = [(r1, 1), (r2, 1)], timestamp = now\<rparr>"
  by (rule scenario_D_result)

section \<open>Weight adaptation and recorded performance\<close>

lemma update_performance_win_rate:
  "get_win_rate (snd (update_performance pl s)) = get_win_rate s"
  by (simp add: update_performance_def get_win_rate_def Let_def split: option.splits)

lemma update_performance_keeps_win_rate_key:
  "performance_metrics (snd (update_performance pl s)) ''win_rate'' = performance_metrics s ''win_rate''"
  by (simp add: update_performance_def Let_def split: option.splits)

lemma update_performance_weight:
  "weight (snd (update_performance pl s)) = weight s"
  by (simp add: update_performance_def Let_def split: option.splits)

lemma update_performance_fresh_ok:
  "performance_metrics s = Map.empty \<Longrightarrow> fst (update_performance pl s) = None"
  by (simp add: update_performance_def Let_def split: option.splits)

lemma record_trades_win_rate:
  "get_win_rate (foldl (\<lambda>a p. snd (update_performance p a)) s pls) = get_win_rate s"
  by (induction pls arbitrary: s) (simp_all add: update_performance_win_rate)

lemma record_trades_weight:
  "weight (foldl (\<lambda>a p. snd (update_performance p a)) s pls) = weight s"
  by (induction pls arbitrary: s) (simp_all add: update_performance_weight)

lemma optimize_step_weight:
  "weight (optimize_step s) =
     (if get_win_rate s > 6/10 then max (1/10) (min 2 (weight s * (11/10)))
      else if get_win_rate s < 4/10 then max (1/10) (min 2 (weight s * (9/10)))
      else weight s)"
  by (simp add: optimize_step_def adjust_weight_def Let_def)

lemma optimize_weights_nth:
  "i < length (strategies tree) \<Longrightarrow>
     strategies (optimize_weights tree) ! i = optimize_step (strategies tree ! i)"
  by (simp add: optimize_weights_def)

lemma optimize_weights_length:
  "length (strategies (optimize_weights tree)) = length (strategies tree)"
  by (simp add: optimize_weights_def)

text \<open>
  C7: one pass of \<open>optimize_weights\<close> keeps the list of sources and maps the weight \<open>w\<close> of
  each source to \<open>max 0.1 (min 2.0 (w * 1.1))\<close> when its win rate is above 0.6, to
  \<open>max 0.1 (min 2.0 (w * 0.9))\<close> when it is below 0.4, and leaves it unchanged otherwise; with
  win rate 0.65 and \<open>w \<ge> 0.1\<close> the new weight is \<open>min 2.0 (w * 1.1)\<close>.
\<close>

theorem C7_weight_adaptation:
  assumes "i < length (strategies tree)"
  shows "length (strategies (optimize_weights tree)) = length (strategies tree) \<and>
     (get_win_rate (strategies tree ! i) > 6/10 \<longrightarrow>
        weight (strategies (optimize_weights tree) ! i) =
          max (1/10) (min 2 (weight (strategies tree ! i) * (11/10)))) \<and>
     (get_win_rate (strategies tree ! i) < 4/10 \<longrightarrow>
        weight (strategies (optimize_weights tree) ! i) =
          max (1/10) (min 2 (weight (strategies tree ! i) * (9/10)))) \<and>
     (4/10 \<le> get_win_rate (strategies tree ! i) \<and> get_win_rate (strategies tree ! i) \<le> 6/10 \<longrightarrow>
        weight (strategies (optimize_weights tree) ! i) = weight (strategies tree ! i)) \<and>
     (get_win_rate (strategies tree ! i) = 65/100 \<and> weight (strategies tree ! i) \<ge> 1/10 \<longrightarrow>
        weight (strategies (optimize_weights tree) ! i) =
          min 2 (weight (strategies tree ! i) * (11/10)))"
  using assms
  by (simp add: optimize_weights_nth optimize_weights_length optimize_step_weight)

lemma rated_tree_strategies:
  "strategies rated_tree =
     [rated_source ''a'' 1 (65/100), rated_source ''b'' 1 (2/10), rated_source ''c'' 1 (5/10)]"
  by (simp add: rated_tree_def add_strategy_def new_tree_def)

lemma rated_source_facts:
  "get_win_rate (rated_source nm w r) = r" "weight (rated_source nm w r) = w"
  by (simp_all add: rated_source_def get_win_rate_def)

text \<open>
  Witness for C7: three sources of weight 1 with win rates 0.65, 0.2 and 0.5 end with the
  weights 1.1, 0.9 and 1.
\<close>

theorem C7_weight_adaptation_witness:
  "length (strategies rated_tree) = 3 \<and>
   get_win_rate (strategies rated_tree ! 0) = 65/100 \<and>
   weight (strategies rated_tree ! 0) = 1 \<and>
   weight (strategies (optimize_weights rated_tree) ! 0) = 11/10 \<and>
   get_win_rate (strategies rated_tree ! 1) = 2/10 \<and>
   weight (strategies (optimize_weights rated_tree) ! 1) = 9/10 \<and>
   get_win_rate (strategies rated_tree ! 2) = 5/10 \<and>
   weight (strategies (optimize_weights rated_tree) ! 2) = 1"
  using C7_weight_adaptation [of 0 rated_tree] C7_weight_adaptation [of 1 rated_tree]
    C7_weight_adaptation [of 2 rated_tree]
  by (simp add: rated_tree_strategies rated_source_facts)

text \<open>
  C10: \<open>update_performance\<close> never changes what \<open>get_win_rate\<close> returns. A source that
  started with empty metrics and only recorded trades has win rate 0, so a pass of
  \<open>optimize_weights\<close> applies \<open>adjust_weight 0.9\<close> to it: the weight becomes
  \<open>max 0.1 (min 2.0 (w * 0.9))\<close>, which is \<open>max 0.1 (w * 0.9)\<close> for every \<open>w \<le> 2\<close>, and the
  win rate is still 0 for the next pass.
\<close>

theorem C10_win_rate_never_recorded:
  "get_win_rate (snd (update_performance pl s)) = get_win_rate s \<and>
   (performance_metrics s0 = Map.empty \<and> i < length (strategies tree) \<and>
    strategies tree ! i = foldl (\<lambda>a p. snd (update_performance p a)) s0 pls \<longrightarrow>
      get_win_rate (strategies tree ! i) = 0 \<and>
      strategies (optimize_weights tree) ! i = adjust_weight (9/10) (strategies tree ! i) \<and>
      weight (strategies (optimize_weights tree) ! i) = max (1/10) (min 2 (weight s0 * (9/10))) \<and>
      (weight s0 \<le> 2 \<longrightarrow>
         weight (strategies (optimize_weights tree) ! i) = max (1/10) (weight s0 * (9/10))) \<and>
      get_win_rate (strategies (optimize_weights tree) ! i) = 0)"
proof -
  have a: "get_win_rate (snd (update_performance pl s)) = get_win_rate s"
    by (rule update_performance_win_rate)
  have b: "get_win_rate (strategies tree ! i) = 0 \<and>
      strategies (optimize_weights tree) ! i = adjust_weight (9/10) (strategies tree ! i) \<and>
      weight (strategies (optimize_weights tree) ! i) = max (1/10) (min 2 (weight s0 * (9/10))) \<and>
      (weight s0 \<le> 2 \<longrightarrow>
         weight (strategies (optimize_weights tree) ! i) = max (1/10) (weight s0 * (9/10))) \<and>
      get_win_rate (strategies (optimize_weights tree) ! i) = 0"
    if e: "performance_metrics s0 = Map.empty" and i: "i < length (strategies tree)"
      and r: "strategies tree ! i = foldl (\<lambda>a p. snd (update_performance p a)) s0 pls"
  proof -
    have w0: "get_win_rate s0 = 0" using e by (simp add: get_win_rate_def)
    have w: "get_win_rate (strategies tree ! i) = 0"
      by (simp add: r record_trades_win_rate w0)
    have wt: "weight (strategies tree ! i) = weight s0"
      by (simp add: r record_trades_weight)
    have st: "strategies (optimize_weights tree) ! i = adjust_weight (9/10) (strategies tree ! i)"
      using i w by (simp add: optimize_weights_nth optimize_step_def)
    have g: "get_win_rate (adjust_weight (9/10) (strategies tree ! i)) = 0"
      using w by (simp add: adjust_weight_def get_win_rate_def)
    show ?thesis
      using w wt g by (simp add: st) (simp add: adjust_weight_def)
  qed
  from a b show ?thesis by blast
qed

text \<open>
  Witness for C10: a fresh source of weight 1 that records the trades 5, -3 and 7 ends the
  pass with weight 0.9.
\<close>

theorem C10_win_rate_never_recorded_witness:
  "performance_metrics (fresh_source ''a'' 1) = Map.empty \<and>
   get_win_rate (snd (update_performance 5 (fresh_source ''a'' 1))) = 0 \<and>
   weight (strategies (optimize_weights
     (add_strategy (foldl (\<lambda>a p. snd (update_performance p a)) (fresh_source ''a'' 1) [5, -3, 7])
        new_tree)) ! 0) = 9/10"
proof -
  let ?s = "foldl (\<lambda>a p. snd (update_performance p a)) (fresh_source ''a'' 1) [5, -3, 7]"
  let ?t = "add_strategy ?s new_tree :: (unit, unit) StrategyTree"
  have e: "performance_metrics (fresh_source ''a'' 1) = Map.empty"
    by (simp add: fresh_source_def)
  have i: "0 < length (strategies ?t)"
    by (simp add: add_strategy_def new_tree_def)
  have r: "strategies ?t ! 0 = ?s"
    by (simp add: add_strategy_def new_tree_def)
  have w: "weight (fresh_source ''a'' 1) = 1" "get_win_rate (fresh_source ''a'' 1) = 0"
    by (simp_all add: fresh_source_def get_win_rate_def)
  from C10_win_rate_never_recorded [of 5 "fresh_source ''a'' 1" "fresh_source ''a'' 1" 0 ?t
      "[5, -3, 7]"] e i r
  have "get_win_rate (snd (update_performance 5 (fresh_source ''a'' 1))) =
          get_win_rate (fresh_source ''a'' 1)"
    and "weight (strategies (optimize_weights ?t) ! 0) =
          max (1/10) (min 2 (weight (fresh_source ''a'' 1) * (9/10)))"
    by blast+
  then show ?thesis using e by (simp add: w)
qed

section \<open>The decision steps and the stroke scenarios\<close>

lemmas decision_defs = make_comprehensive_decision_def initial_state_def step1_trend_def step2_position_def
  step3_divergence_def step4_emotion_def step5_strength_def step6_emit_def

lemma scenario_C_strokes_eq:
  "scenario_C_strokes =
     [mk_stroke up (mk_fractal 2 bottom 100) (mk_fractal 10 top 110),
      mk_stroke down (mk_fractal 10 top 110) (mk_fractal 20 bottom 66)]"
  by (simp add: scenario_C_strokes_def identify_strokes_def mk_fractal_def mk_stroke_def
      min_k_for_stroke_def)

lemma scenario_C_strengths:
  "map stroke_strength scenario_C_strokes = [1/10, 4/10]"
  "map direction scenario_C_strokes = [up, down]"
  by (simp_all add: scenario_C_strokes_eq mk_fractal_def mk_stroke_def)

lemma three_strokes_eq:
  "three_strokes =
     [mk_stroke down (mk_fractal 2 top 120) (mk_fractal 8 bottom 100),
      mk_stroke up (mk_fractal 8 bottom 100) (mk_fractal 15 top 110),
      mk_stroke down (mk_fractal 15 top 110) (mk_fractal 22 bottom 66)]"
  by (simp add: three_strokes_def identify_strokes_def mk_fractal_def mk_stroke_def
      min_k_for_stroke_def)

lemma both_buy_strokes_eq:
  "both_buy_strokes =
     [mk_stroke up (mk_fractal 2 bottom 90) (mk_fractal 8 top 100),
      mk_stroke down (mk_fractal 8 top 100) (mk_fractal 14 bottom 95),
      mk_stroke up (mk_fractal 14 bottom 95) (mk_fractal 20 top 110),
      mk_stroke down (mk_fractal 20 top 110) (mk_fractal 26 bottom 66)]"
  by (simp add: both_buy_strokes_def identify_strokes_def mk_fractal_def mk_stroke_def
      min_k_for_stroke_def)

lemma both_sell_strokes_eq:
  "both_sell_strokes =
     [mk_stroke down (mk_fractal 2 top 110) (mk_fractal 8 bottom 100),
      mk_stroke up (mk_fractal 8 bottom 100) (mk_fractal 14 top 105),
      mk_stroke down (mk_fractal 14 top 105) (mk_fractal 20 bottom 90),
      mk_stroke up (mk_fractal 20 bottom 90) (mk_fractal 26 top 126)]"
  by (simp add: both_sell_strokes_def identify_strokes_def mk_fractal_def mk_stroke_def
      min_k_for_stroke_def)

lemma two_strokes_no_points:
  "length strokes = 2 \<Longrightarrow> identify_buy_sell_points strokes trend = []"
  by (simp add: identify_buy_sell_points_def Let_def)

lemma no_points_no_signal:
  "make_comprehensive_decision trend position [] dv emo now = None"
  by (cases dv) (simp_all add: decision_defs)

text \<open>
  C2 (as stated): with exactly the two strokes of Scenario C, an up trend and a low position,
  the classifier reports the second buy point and the composer emits a buy signal. The code
  reports no point below three strokes, and the composer then emits nothing.
\<close>

theorem C2_scenario_C_counterexample:
  "length scenario_C_strokes = 2 \<and>
   map direction scenario_C_strokes = [up, down] \<and>
   map stroke_strength scenario_C_strokes = [1/10, 4/10] \<and>
   identify_buy_sell_points scenario_C_strokes UP = [] \<and>
   make_comprehensive_decision UP LOW (identify_buy_sell_points scenario_C_strokes UP)
     None calm_emotion 0 = None"
proof -
  have l: "length scenario_C_strokes = 2" by (simp add: scenario_C_strokes_eq)
  have p: "identify_buy_sell_points scenario_C_strokes UP = []"
    by (rule two_strokes_no_points [OF l])
  show ?thesis using l scenario_C_strengths by (simp add: p no_points_no_signal)
qed

lemma buy2_points:
  assumes "3 \<le> length strokes" "direction (last strokes) = down"
    "direction (prev_of strokes) = up"
    "3/10 \<le> stroke_strength (last strokes)" "stroke_strength (last strokes) \<le> 618/1000"
  shows "identify_buy_sell_points strokes UP = [BUY_2]"
  using assms by (simp add: identify_buy_sell_points_def is_second_buy_point_def Let_def)

lemma step3_keeps:
  "d_signal_type (step3_divergence dv st) = d_signal_type st \<and>
   d_confidence st \<le> d_confidence (step3_divergence dv st)"
  by (cases dv) (simp_all add: step3_divergence_def)

lemma step4_keeps:
  "d_signal_type (step4_emotion emo st) = d_signal_type st \<and>
   d_confidence st \<le> d_confidence (step4_emotion emo st)"
  by (simp add: step4_emotion_def)

lemma step5_keeps:
  "d_signal_type (step5_strength st) = d_signal_type st \<and>
   d_confidence (step5_strength st) = d_confidence st \<and>
   d_reasons (step5_strength st) = d_reasons st"
  by (simp add: step5_strength_def)

lemma step6_some:
  "d_signal_type st \<noteq> HOLD \<Longrightarrow> 5/10 \<le> d_confidence st \<Longrightarrow>
     \<exists>s. step6_emit now st = Some s \<and> signal_type s = d_signal_type st \<and>
         confidence s = min (d_confidence st) 1 \<and> strength s = d_strength st \<and>
         reason s = d_reasons st"
  by (simp add: step6_emit_def)

lemma step12_buy_low:
  "list_ex (\<lambda>bp. bp \<in> set [BUY_2, BUY_3]) bsp \<Longrightarrow>
     step2_position LOW (step1_trend UP bsp initial_state) =
     \<lparr>d_signal_type = BUY, d_strength = WEAK, d_confidence = 9/10,
      d_reasons = [TrendUpWithPoints bsp, PositionLowSafetyMargin]\<rparr>"
  by (simp add: step1_trend_def step2_position_def initial_state_def)

lemma buy_low_confidence:
  assumes "list_ex (\<lambda>bp. bp \<in> set [BUY_2, BUY_3]) bsp"
  shows "\<exists>s. make_comprehensive_decision UP LOW bsp dv emo now = Some s \<and>
             signal_type s = BUY \<and> 7/10 \<le> confidence s"
proof -
  let ?s2 = "\<lparr>d_signal_type = BUY, d_strength = WEAK, d_confidence = 9/10,
      d_reasons = [TrendUpWithPoints bsp, PositionLowSafetyMargin]\<rparr>"
  let ?s5 = "step5_strength (step4_emotion emo (step3_divergence dv ?s2))"
  have t: "d_signal_type ?s5 = BUY"
    by (simp add: step5_keeps step4_keeps step3_keeps)
  have "d_confidence ?s2 \<le> d_confidence (step3_divergence dv ?s2)"
    using step3_keeps by blast
  also have "\<dots> \<le> d_confidence (step4_emotion emo (step3_divergence dv ?s2))"
    using step4_keeps by blast
  finally have c: "9/10 \<le> d_confidence ?s5" by (simp add: step5_keeps)
  from t c step6_some [of ?s5 now] obtain s where
    "step6_emit now ?s5 = Some s" "signal_type s = BUY" "confidence s = min (d_confidence ?s5) 1"
    by auto
  then show ?thesis using c
    by (auto simp: make_comprehensive_decision_def step12_buy_low [OF assms])
qed

text \<open>
  C2 (amended): when the decomposition has at least three strokes, the last two being an
  up-stroke followed by a down-stroke of strength 0.40, then with an up trend the classifier
  reports exactly the second buy point, and with a low position the composer emits a buy
  signal of confidence at least 0.7, whatever the divergence and the emotion readings.
\<close>

theorem C2_three_strokes_buy_2:
  assumes "3 \<le> length strokes" and "direction (last strokes) = down"
    and "direction (prev_of strokes) = up" and "stroke_strength (last strokes) = 4/10"
  shows "identify_buy_sell_points strokes UP = [BUY_2] \<and>
         (\<exists>s. make_comprehensive_decision UP LOW (identify_buy_sell_points strokes UP)
                 dv emo now = Some s \<and>
              signal_type s = BUY \<and> 7/10 \<le> confidence s)"
proof -
  have p: "identify_buy_sell_points strokes UP = [BUY_2]"
    using assms by (intro buy2_points) simp_all
  have "list_ex (\<lambda>bp. bp \<in> set [BUY_2, BUY_3]) [BUY_2]" by simp
  from buy_low_confidence [OF this, of dv emo now] show ?thesis
    unfolding p by blast
qed

lemma three_strokes_facts:
  "length three_strokes = 3" "direction (last three_strokes) = down"
  "direction (prev_of three_strokes) = up" "stroke_strength (last three_strokes) = 4/10"
  by (simp_all add: three_strokes_eq prev_of_def mk_stroke_def mk_fractal_def)

text \<open>
  Witness for C2: the three strokes 120 to 100, 100 to 110, 110 to 66.
\<close>

theorem C2_three_strokes_buy_2_witness:
  "3 \<le> length three_strokes \<and> direction (last three_strokes) = down \<and>
   direction (prev_of three_strokes) = up \<and> stroke_strength (last three_strokes) = 4/10 \<and>
   identify_buy_sell_points three_strokes UP = [BUY_2] \<and>
   (\<exists>s. make_comprehensive_decision UP LOW (identify_buy_sell_points three_strokes UP)
           None calm_emotion 0 = Some s \<and> signal_type s = BUY \<and> 7/10 \<le> confidence s)"
proof -
  have h: "3 \<le> length three_strokes" by (simp add: three_strokes_facts)
  from C2_three_strokes_buy_2 [OF h three_strokes_facts(2) three_strokes_facts(3)
      three_strokes_facts(4), of None calm_emotion 0]
  show ?thesis using h three_strokes_facts by blast
qed

lemma fifty_bars_facts:
  "length fifty_bars = 50" "MACD (fifty_bars ! 10) = 5" "MACD (fifty_bars ! 20) = 3"
  by (simp_all add: fifty_bars_def flat_bar_def)

lemma two_up_facts:
  "length two_up_strokes = 2" "direction (last two_up_strokes) = up"
  "direction (prev_of two_up_strokes) = up"
  "end_index (last two_up_strokes) = 20" "end_index (prev_of two_up_strokes) = 10"
  "f_price (end_fractal (last two_up_strokes)) = 12"
  "f_price (end_fractal (prev_of two_up_strokes)) = 10"
  by (simp_all add: two_up_strokes_def prev_of_def mk_stroke_def mk_fractal_def)

lemma two_down_facts:
  "length two_down_strokes = 2" "direction (last two_down_strokes) = down"
  "direction (prev_of two_down_strokes) = down"
  "end_index (last two_down_strokes) = 20" "end_index (prev_of two_down_strokes) = 10"
  "f_price (end_fractal (last two_down_strokes)) = 10"
  "f_price (end_fractal (prev_of two_down_strokes)) = 12"
  by (simp_all add: two_down_strokes_def prev_of_def mk_stroke_def mk_fractal_def)

lemma detect_divergence_same_direction:
  assumes "2 \<le> length strokes" "50 \<le> length data"
    "direction (last strokes) = direction (prev_of strokes)"
    "end_index (last strokes) < length data" "end_index (prev_of strokes) < length data"
  shows "detect_divergence data strokes =
     (if direction (last strokes) = up
      then (if f_price (end_fractal (last strokes)) > f_price (end_fractal (prev_of strokes)) \<and>
               MACD (data ! end_index (last strokes)) < MACD (data ! end_index (prev_of strokes))
            then Inr (Some bullish_divergence) else Inr None)
      else (if f_price (end_fractal (last strokes)) < f_price (end_fractal (prev_of strokes)) \<and>
               MACD (data ! end_index (last strokes)) > MACD (data ! end_index (prev_of strokes))
            then Inr (Some bearish_divergence) else Inr None))"
  using assms by (simp add: detect_divergence_def macd_at_def Let_def)

text \<open>
  C3 (as stated): an up-directed pair with a higher price and a lower MACD at the later end
  is flagged as bearish divergence. The code returns the label \<open>bullish_divergence\<close> for it.
\<close>

theorem C3_divergence_labels_counterexample:
  "length fifty_bars = 50 \<and>
   map direction two_up_strokes = [up, up] \<and>
   f_price (end_fractal (last two_up_strokes)) > f_price (end_fractal (prev_of two_up_strokes)) \<and>
   MACD (fifty_bars ! end_index (last two_up_strokes)) <
     MACD (fifty_bars ! end_index (prev_of two_up_strokes)) \<and>
   detect_divergence fifty_bars two_up_strokes = Inr (Some bullish_divergence) \<and>
   detect_divergence fifty_bars two_up_strokes \<noteq> Inr (Some bearish_divergence)"
proof -
  have "detect_divergence fifty_bars two_up_strokes = Inr (Some bullish_divergence)"
    by (subst detect_divergence_same_direction) (simp_all add: two_up_facts fifty_bars_facts)
  moreover have "map direction two_up_strokes = [up, up]"
    by (simp add: two_up_strokes_def mk_stroke_def)
  ultimately show ?thesis by (simp add: two_up_facts fifty_bars_facts)
qed

text \<open>
  C3 (amended): on at least 50 rows, when the last two strokes have the same direction and
  end inside the data, an up-directed pair with a higher price and a lower MACD at the later
  end returns the label \<open>bullish_divergence\<close>, and a down-directed pair with a lower price
  and a higher MACD at the later end returns the label \<open>bearish_divergence\<close>.
\<close>

theorem C3_divergence_labels:
  assumes "2 \<le> length strokes" and "50 \<le> length data"
    and "direction (last strokes) = direction (prev_of strokes)"
    and "end_index (last strokes) < length data" and "end_index (prev_of strokes) < length data"
  shows "(direction (last strokes) = up \<and>
          f_price (end_fractal (last strokes)) > f_price (end_fractal (prev_of strokes)) \<and>
          MACD (data ! end_index (last strokes)) < MACD (data ! end_index (prev_of strokes)) \<longrightarrow>
            detect_divergence data strokes = Inr (Some bullish_divergence)) \<and>
         (direction (last strokes) = down \<and>
          f_price (end_fractal (last strokes)) < f_price (end_fractal (prev_of strokes)) \<and>
          MACD (data ! end_index (last strokes)) > MACD (data ! end_index (prev_of strokes)) \<longrightarrow>
            detect_divergence data strokes = Inr (Some bearish_divergence))"
  by (simp add: detect_divergence_same_direction [OF assms])

lemma fifty_bars_rising_facts:
  "length fifty_bars_rising = 50" "MACD (fifty_bars_rising ! 10) = 3"
  "MACD (fifty_bars_rising ! 20) = 5"
  by (simp_all add: fifty_bars_rising_def flat_bar_def)

text \<open>
  Witness for C3: two up-strokes ending at 10 and 12 with MACD 5 and 3, and two
  down-strokes ending at 12 and 10 with MACD 3 and 5.
\<close>

theorem C3_divergence_labels_witness:
  "detect_divergence fifty_bars two_up_strokes = Inr (Some bullish_divergence) \<and>
   detect_divergence fifty_bars_rising two_down_strokes = Inr (Some bearish_divergence)"
proof -
  have a: "2 \<le> length two_up_strokes" "50 \<le> length fifty_bars"
    "direction (last two_up_strokes) = direction (prev_of two_up_strokes)"
    "end_index (last two_up_strokes) < length fifty_bars"
    "end_index (prev_of two_up_strokes) < length fifty_bars"
    by (simp_all add: two_up_facts fifty_bars_facts)
  have b: "2 \<le> length two_down_strokes" "50 \<le> length fifty_bars_rising"
    "direction (last two_down_strokes) = direction (prev_of two_down_strokes)"
    "end_index (last two_down_strokes) < length fifty_bars_rising"
    "end_index (prev_of two_down_strokes) < length fifty_bars_rising"
    by (simp_all add: two_down_facts fifty_bars_rising_facts)
  have "detect_divergence fifty_bars two_up_strokes = Inr (Some bullish_divergence)"
    using C3_divergence_labels [OF a] by (simp add: two_up_facts fifty_bars_facts)
  moreover have "detect_divergence fifty_bars_rising two_down_strokes =
      Inr (Some bearish_divergence)"
    using C3_divergence_labels [OF b] by (simp add: two_down_facts fifty_bars_rising_facts)
  ultimately show ?thesis by blast
qed

section \<open>Confidence of emitted signals\<close>

lemma collect_step_inv:
  assumes "snd acc = sum_list (map snd (fst acc))" "list_all good_pair (fst acc)"
    and "enabled s \<Longrightarrow> 1/10 \<le> weight s \<and> weight s \<le> 2 \<and>
          (\<forall>sg. calculate_signal s data = Some sg \<longrightarrow> 0 \<le> confidence sg \<and> confidence sg \<le> 1)"
  shows "snd (collect_step data acc s) = sum_list (map snd (fst (collect_step data acc s))) \<and>
         list_all good_pair (fst (collect_step data acc s))"
  using assms by (auto simp: collect_step_def good_pair_def split: option.splits)

lemma collect_foldl_inv:
  assumes "snd acc = sum_list (map snd (fst acc))" "list_all good_pair (fst acc)"
    and "\<forall>s\<in>set ss. enabled s \<longrightarrow> 1/10 \<le> weight s \<and> weight s \<le> 2 \<and>
          (\<forall>sg. calculate_signal s data = Some sg \<longrightarrow> 0 \<le> confidence sg \<and> confidence sg \<le> 1)"
  shows "snd (foldl (collect_step data) acc ss) =
           sum_list (map snd (fst (foldl (collect_step data) acc ss))) \<and>
         list_all good_pair (fst (foldl (collect_step data) acc ss))"
  using assms
proof (induction ss arbitrary: acc)
  case Nil
  then show ?case by simp
next
  case (Cons s ss)
  have "snd (collect_step data acc s) = sum_list (map snd (fst (collect_step data acc s))) \<and>
         list_all good_pair (fst (collect_step data acc s))"
    using Cons.prems by (intro collect_step_inv) auto
  then show ?case using Cons.prems(3) by (simp add: Cons.IH)
qed

lemma collect_signals_inv:
  assumes "\<forall>s\<in>set ss. enabled s \<longrightarrow> 1/10 \<le> weight s \<and> weight s \<le> 2 \<and>
          (\<forall>sg. calculate_signal s data = Some sg \<longrightarrow> 0 \<le> confidence sg \<and> confidence sg \<le> 1)"
  shows "snd (collect_signals ss data) = sum_list (map snd (fst (collect_signals ss data))) \<and>
         list_all good_pair (fst (collect_signals ss data))"
  unfolding collect_signals_def using assms by (intro collect_foldl_inv) auto

lemma score_foldl_confidence:
  "confidence_sum (foldl score_step acc signals) =
     confidence_sum acc + sum_list (map (\<lambda>sw. confidence (fst sw) * snd sw) signals)"
  by (induction signals arbitrary: acc) (simp_all add: score_step_def Let_def)

lemma accumulate_confidence:
  "confidence_sum (accumulate_scores signals) =
     sum_list (map (\<lambda>sw. confidence (fst sw) * snd sw) signals)"
  by (simp add: accumulate_scores_def score_foldl_confidence)

lemma good_sum_bounds:
  "list_all good_pair signals \<Longrightarrow>
     0 \<le> sum_list (map (\<lambda>sw. confidence (fst sw) * snd sw) signals) \<and>
     sum_list (map (\<lambda>sw. confidence (fst sw) * snd sw) signals) \<le> sum_list (map snd signals)"
proof (induction signals)
  case Nil
  then show ?case by simp
next
  case (Cons sw signals)
  then have g: "0 \<le> confidence (fst sw)" "confidence (fst sw) \<le> 1" "0 \<le> snd sw"
    by (simp_all add: good_pair_def)
  have "confidence (fst sw) * snd sw \<le> 1 * snd sw"
    using g by (intro mult_right_mono) auto
  moreover have "0 \<le> confidence (fst sw) * snd sw" using g by simp
  ultimately show ?case using Cons by simp
qed

lemma good_sum_positive:
  "list_all good_pair signals \<Longrightarrow> signals \<noteq> [] \<Longrightarrow> 0 < sum_list (map snd signals)"
proof (induction signals)
  case Nil
  then show ?case by simp
next
  case (Cons sw signals)
  then have "0 < snd sw" by (simp add: good_pair_def)
  moreover have "0 \<le> sum_list (map snd signals)"
    using Cons.prems(1) by (intro sum_list_nonneg) (auto simp: good_pair_def list_all_iff)
  ultimately show ?case by simp
qed

lemma composite_some:
  assumes "fst (calculate_composite_signal tree data now) = Some c"
  shows "fst (collect_signals (strategies tree) data) \<noteq> [] \<and>
         confidence c = confidence_sum (normalize_scores (snd (collect_signals (strategies tree) data))
                          (accumulate_scores (fst (collect_signals (strategies tree) data)))) \<and>
         signal_type c \<noteq> HOLD"
  using assms
  by (auto simp: calculate_composite_signal_def Let_def split: if_splits)

lemma fusion_confidence:
  assumes ok: "\<forall>s\<in>set (strategies tree). enabled s \<longrightarrow> 1/10 \<le> weight s \<and> weight s \<le> 2 \<and>
          (\<forall>sg. calculate_signal s data = Some sg \<longrightarrow> 0 \<le> confidence sg \<and> confidence sg \<le> 1)"
    and em: "fst (calculate_composite_signal tree data now) = Some c"
  shows "0 \<le> confidence c \<and> confidence c \<le> 1 \<and> signal_type c \<noteq> HOLD"
proof -
  let ?sig = "fst (collect_signals (strategies tree) data)"
  let ?tw = "snd (collect_signals (strategies tree) data)"
  let ?cs = "sum_list (map (\<lambda>sw. confidence (fst sw) * snd sw) ?sig)"
  from composite_some [OF em] have ne: "?sig \<noteq> []"
    and cf: "confidence c = confidence_sum (normalize_scores ?tw (accumulate_scores ?sig))"
    and nh: "signal_type c \<noteq> HOLD" by blast+
  from collect_signals_inv [OF ok] have tw: "?tw = sum_list (map snd ?sig)"
    and gp: "list_all good_pair ?sig" by blast+
  have pos: "0 < ?tw" using good_sum_positive [OF gp ne] tw by simp
  have b: "0 \<le> ?cs" "?cs \<le> ?tw" using good_sum_bounds [OF gp] tw by simp_all
  have "confidence c = ?cs / ?tw"
    using pos by (simp add: cf normalize_scores_def accumulate_confidence)
  then show ?thesis using pos b nh by simp
qed

lemma decision_unfold:
  "make_comprehensive_decision trend position bsp dv emo now = Some s \<Longrightarrow>
     0 \<le> confidence s \<and> confidence s \<le> 1 \<and> signal_type s \<noteq> HOLD"
  by (auto simp: make_comprehensive_decision_def step6_emit_def split: if_splits)

text \<open>
  C6: a signal emitted by \<open>_make_comprehensive_decision\<close> has confidence in [0, 1] and a
  direction other than hold; so has a composite signal emitted by
  \<open>calculate_composite_signal\<close> when every enabled source has a weight in [0.1, 2.0] and
  emits signals of confidence in [0, 1]. A hold outcome is the absence of a signal.
\<close>

theorem C6_confidence_in_unit_interval:
  "(make_comprehensive_decision trend position bsp dv emo now = Some s \<longrightarrow>
      0 \<le> confidence s \<and> confidence s \<le> 1 \<and> signal_type s \<noteq> HOLD) \<and>
   ((\<forall>st\<in>set (strategies tree). enabled st \<longrightarrow> 1/10 \<le> weight st \<and> weight st \<le> 2 \<and>
        (\<forall>sg. calculate_signal st data = Some sg \<longrightarrow> 0 \<le> confidence sg \<and> confidence sg \<le> 1)) \<and>
     fst (calculate_composite_signal tree data now') = Some c \<longrightarrow>
      0 \<le> confidence c \<and> confidence c \<le> 1 \<and> signal_type c \<noteq> HOLD)"
  using decision_unfold [of trend position bsp dv emo now s]
    fusion_confidence [of tree data now' c]
  by blast

lemma buy2_low_decision:
  "make_comprehensive_decision UP LOW [BUY_2] None calm_emotion now =
     Some \<lparr>signal_type = BUY, strength = STRONG, confidence = 9/10,
           reason = [TrendUpWithPoints [BUY_2], PositionLowSafetyMargin], timestamp = now\<rparr>"
  by (simp add: make_comprehensive_decision_def initial_state_def step1_trend_def step2_position_def
      step3_divergence_def step4_emotion_def step5_strength_def step6_emit_def calm_emotion_def)

lemma scenario_D_sources_ok:
  "\<forall>st\<in>set (strategies (scenario_D_tree r1 r2 t1 t2)). enabled st \<longrightarrow>
      1/10 \<le> weight st \<and> weight st \<le> 2 \<and>
      (\<forall>sg. calculate_signal st data = Some sg \<longrightarrow> 0 \<le> confidence sg \<and> confidence sg \<le> 1)"
  by (auto simp: scenario_D_tree_def add_strategy_def new_tree_def constant_source_def)

text \<open>
  Witness for C6: the decision for an up trend, a low position and a second buy point, and
  the fusion of Scenario D, both emit a signal.
\<close>

theorem C6_confidence_in_unit_interval_witness:
  "(\<exists>s. make_comprehensive_decision UP LOW [BUY_2] None calm_emotion 0 = Some s \<and>
        0 \<le> confidence s \<and> confidence s \<le> 1 \<and> signal_type s \<noteq> HOLD) \<and>
   (\<exists>c. fst (calculate_composite_signal
               (scenario_D_tree ''b'' ''s'' 0 0 :: (unit, string) StrategyTree) () 0) = Some c \<and>
        0 \<le> confidence c \<and> confidence c \<le> 1 \<and> signal_type c \<noteq> HOLD)"
proof -
  let ?s = "\<lparr>signal_type = BUY, strength = STRONG, confidence = 9/10,
           reason = [TrendUpWithPoints [BUY_2], PositionLowSafetyMargin], timestamp = 0\<rparr>"
  let ?t = "scenario_D_tree ''b'' ''s'' 0 0 :: (unit, string) StrategyTree"
  let ?c = "\<lparr>signal_type = BUY, strength = STRONG, confidence = 9/10,
           reason = [(''b'', 1::real), (''s'', 1)], timestamp = 0\<rparr>"
  have h1: "make_comprehensive_decision UP LOW [BUY_2] None calm_emotion 0 = Some ?s"
    by (rule buy2_low_decision)
  have h2: "fst (calculate_composite_signal ?t () 0) = Some ?c"
    by (rule scenario_D_result)
  have h3: "\<forall>st\<in>set (strategies ?t). enabled st \<longrightarrow>
      1/10 \<le> weight st \<and> weight st \<le> 2 \<and>
      (\<forall>sg. calculate_signal st () = Some sg \<longrightarrow> 0 \<le> confidence sg \<and> confidence sg \<le> 1)"
    by (rule scenario_D_sources_ok)
  note th = C6_confidence_in_unit_interval
    [of UP LOW "[BUY_2]" None calm_emotion 0 ?s ?t "()" 0 ?c]
  have "0 \<le> confidence ?s \<and> confidence ?s \<le> 1 \<and> signal_type ?s \<noteq> HOLD"
    using th [THEN conjunct1] h1 by (rule mp)
  moreover have "0 \<le> confidence ?c \<and> confidence ?c \<le> 1 \<and> signal_type ?c \<noteq> HOLD"
    using th [THEN conjunct2] conjI [OF h3 h2] by (rule mp)
  ultimately show ?thesis using h1 h2 by blast
qed

section \<open>Strength override and classification of points\<close>

text \<open>
  C4: when the emotion override of step 4 fires, the emitted strength is strong whatever the
  final confidence. The code at an up trend, a high position, a second buy point, no
  divergence and an RSI of 5: step 4 fires and sets the strength to strong, the confidence
  is 0.5 + 0.2 - 0.1 + 0.1 = 0.7, and step 5 then overwrites the strength with medium, which
  is what the emitted signal carries.
\<close>

theorem C4_forced_strong_overwritten:
  "monitor_emotion_indicators [flat_bar 0 0 5] = Inr panic_emotion \<and>
   d_strength (step4_emotion panic_emotion (step3_divergence None
     (step2_position HIGH (step1_trend UP [BUY_2] initial_state)))) = STRONG \<and>
   make_comprehensive_decision UP HIGH [BUY_2] None panic_emotion now =
     Some \<lparr>signal_type = BUY, strength = MEDIUM, confidence = 7/10,
           reason = [TrendUpWithPoints [BUY_2], PositionHighCaution, RsiExtremeOversold 5],
           timestamp = now\<rparr>"
proof -
  have m: "monitor_emotion_indicators [flat_bar 0 0 5] = Inr panic_emotion"
    by (simp add: monitor_emotion_indicators_def iloc_last_def flat_bar_def panic_emotion_def
        param_rsi_overbought_def param_rsi_oversold_def)
  have s4: "step4_emotion panic_emotion (step3_divergence None
     (step2_position HIGH (step1_trend UP [BUY_2] initial_state))) =
     \<lparr>d_signal_type = BUY, d_strength = STRONG, d_confidence = 7/10,
      d_reasons = [TrendUpWithPoints [BUY_2], PositionHighCaution, RsiExtremeOversold 5]\<rparr>"
    by (simp add: step4_emotion_def step3_divergence_def step2_position_def step1_trend_def
        initial_state_def panic_emotion_def)
  show ?thesis
    unfolding make_comprehensive_decision_def s4
    by (simp add: m step5_strength_def step6_emit_def)
qed

lemma both_buy_tests:
  "is_second_buy_point both_buy_strokes" "is_third_buy_point both_buy_strokes"
  "direction (last both_buy_strokes) = down" "direction (prev_of both_buy_strokes) = up"
  by (simp_all add: both_buy_strokes_eq is_second_buy_point_def is_third_buy_point_def
      prev_of_def mk_stroke_def mk_fractal_def)

lemma both_sell_tests:
  "is_second_sell_point both_sell_strokes" "is_third_sell_point both_sell_strokes"
  "direction (last both_sell_strokes) = up" "direction (prev_of both_sell_strokes) = down"
  by (simp_all add: both_sell_strokes_eq is_second_sell_point_def is_third_sell_point_def
      prev_of_def mk_stroke_def mk_fractal_def)

lemma second_buy_length: "is_second_buy_point strokes \<Longrightarrow> 3 \<le> length strokes"
  by (simp add: is_second_buy_point_def split: if_splits)

lemma third_buy_length: "is_third_buy_point strokes \<Longrightarrow> 4 \<le> length strokes"
  by (simp add: is_third_buy_point_def split: if_splits)

lemma second_sell_length: "is_second_sell_point strokes \<Longrightarrow> 3 \<le> length strokes"
  by (simp add: is_second_sell_point_def split: if_splits)

lemma third_sell_length: "is_third_sell_point strokes \<Longrightarrow> 4 \<le> length strokes"
  by (simp add: is_third_sell_point_def split: if_splits)

lemma points_cases:
  "identify_buy_sell_points strokes trend =
     (if trend = UP \<and> direction (last strokes) = down \<and> direction (prev_of strokes) = up
      then (if is_second_buy_point strokes then [BUY_2]
            else if is_third_buy_point strokes then [BUY_3] else [])
      else if trend = DOWN \<and> direction (last strokes) = up \<and> direction (prev_of strokes) = down
      then (if is_second_sell_point strokes then [SELL_2]
            else if is_third_sell_point strokes then [SELL_3] else [])
      else [])"
proof (cases "3 \<le> length strokes")
  case True
  then show ?thesis by (auto simp: identify_buy_sell_points_def Let_def)
next
  case False
  then have "\<not> is_second_buy_point strokes" "\<not> is_third_buy_point strokes"
    "\<not> is_second_sell_point strokes" "\<not> is_third_sell_point strokes"
    using second_buy_length third_buy_length second_sell_length third_sell_length
    by fastforce+
  moreover have "identify_buy_sell_points strokes trend = []"
    using False by (simp add: identify_buy_sell_points_def Let_def)
  ultimately show ?thesis by simp
qed

text \<open>
  C5 (as stated): when both the retracement test and the new-high test pass, both
  classifications are reported. On the four strokes 90 to 100, 100 to 95, 95 to 110 and
  110 to 66 both tests pass and the code reports the second buy point alone.
\<close>

theorem C5_both_tests_counterexample:
  "is_second_buy_point both_buy_strokes \<and> is_third_buy_point both_buy_strokes \<and>
   identify_buy_sell_points both_buy_strokes UP = [BUY_2] \<and>
   BUY_3 \<notin> set (identify_buy_sell_points both_buy_strokes UP)"
  by (simp add: points_cases both_buy_tests)

text \<open>
  C5 (amended): the classifier reports at most one classification. In an up trend with the
  latest stroke down and the previous one up it reports the second buy point exactly when
  the retracement test passes, and the third buy point exactly when the retracement test
  fails and the new-high test passes; symmetrically for the sell points in a down trend.
\<close>

theorem C5_points_exclusive:
  "length (identify_buy_sell_points strokes trend) \<le> 1 \<and>
   (BUY_2 \<in> set (identify_buy_sell_points strokes trend) \<longleftrightarrow>
      trend = UP \<and> direction (last strokes) = down \<and> direction (prev_of strokes) = up \<and>
      is_second_buy_point strokes) \<and>
   (BUY_3 \<in> set (identify_buy_sell_points strokes trend) \<longleftrightarrow>
      trend = UP \<and> direction (last strokes) = down \<and> direction (prev_of strokes) = up \<and>
      \<not> is_second_buy_point strokes \<and> is_third_buy_point strokes) \<and>
   (SELL_2 \<in> set (identify_buy_sell_points strokes trend) \<longleftrightarrow>
      trend = DOWN \<and> direction (last strokes) = up \<and> direction (prev_of strokes) = down \<and>
      is_second_sell_point strokes) \<and>
   (SELL_3 \<in> set (identify_buy_sell_points strokes trend) \<longleftrightarrow>
      trend = DOWN \<and> direction (last strokes) = up \<and> direction (prev_of strokes) = down \<and>
      \<not> is_second_sell_point strokes \<and> is_third_sell_point strokes)"
  unfolding points_cases [of strokes trend] by auto

text \<open>
  Witness for C5: on the buy scenario and on its mirror image both tests pass and only the
  second point is reported.
\<close>

theorem C5_points_exclusive_witness:
  "is_second_buy_point both_buy_strokes \<and> is_third_buy_point both_buy_strokes \<and>
   BUY_2 \<in> set (identify_buy_sell_points both_buy_strokes UP) \<and>
   BUY_3 \<notin> set (identify_buy_sell_points both_buy_strokes UP) \<and>
   is_second_sell_point both_sell_strokes \<and> is_third_sell_point both_sell_strokes \<and>
   SELL_2 \<in> set (identify_buy_sell_points both_sell_strokes DOWN) \<and>
   SELL_3 \<notin> set (identify_buy_sell_points both_sell_strokes DOWN)"
  using C5_points_exclusive [of both_buy_strokes UP] C5_points_exclusive [of both_sell_strokes DOWN]
  by (simp add: both_buy_tests both_sell_tests)

section \<open>Short series and the divergence boost\<close>

lemma tail_short: "length xs \<le> n \<Longrightarrow> tail n xs = xs"
  by (simp add: tail_def)

lemma relative_position_short:
  assumes "length data < position_lookback" "data \<noteq> []"
  shows "calculate_relative_position data =
     Inr (classify_position
       (if Max (set (map high data)) = Min (set (map low data)) then 5/10
        else (close (last data) - Min (set (map low data))) /
             (Max (set (map high data)) - Min (set (map low data)))))"
  using assms
  by (simp add: calculate_relative_position_def iloc_last_def tail_short Let_def)

lemma relative_position_empty: "calculate_relative_position [] = Inl IndexError"
  by (simp add: calculate_relative_position_def iloc_last_def)

text \<open>
  C8 (as stated): below 120 rows the position locator returns a marker of insufficient data
  instead of a class. On a single flat row \<open>_calculate_relative_position\<close> returns the class
  medium.
\<close>

theorem C8_position_locator_counterexample:
  "length [flat_bar 0 0 50] < position_lookback \<and>
   calculate_relative_position [flat_bar 0 0 50] = Inr MEDIUM_POS"
  by (simp add: position_lookback_def calculate_relative_position_def iloc_last_def tail_def
      classify_position_def flat_bar_def)

text \<open>
  C8 (amended): below 120 rows \<open>calculate_signal\<close> returns no signal, before the position
  locator is called. \<open>_calculate_relative_position\<close> itself has no minimum length: on a
  non-empty series shorter than 120 rows it classifies the last close within the range of all
  rows (0.5 on a flat range), and on an empty one it raises IndexError. The marker
  \<open>insufficient_data\<close> is returned by \<open>get_strategy_status\<close>, below 50 rows.
\<close>

theorem C8_short_series:
  assumes "length data < position_lookback"
  shows "changlun_calculate_signal data now = Inr None \<and>
         (data = [] \<longrightarrow> calculate_relative_position data = Inl IndexError) \<and>
         (data \<noteq> [] \<longrightarrow>
            calculate_relative_position data =
              Inr (classify_position
                (if Max (set (map high data)) = Min (set (map low data)) then 5/10
                 else (close (last data) - Min (set (map low data))) /
                      (Max (set (map high data)) - Min (set (map low data)))))) \<and>
         (length data < 50 \<longrightarrow> get_strategy_status data = Inr insufficient_data)"
proof -
  have "changlun_calculate_signal data now = Inr None"
    using assms by (simp add: changlun_calculate_signal_def)
  moreover have "length data < 50 \<longrightarrow> get_strategy_status data = Inr insufficient_data"
    by (simp add: get_strategy_status_def)
  ultimately show ?thesis
    using relative_position_short [OF assms] relative_position_empty by blast
qed

text \<open>
  Witness for C8: a single flat row, and the empty series.
\<close>

theorem C8_short_series_witness:
  "length [flat_bar 0 0 50] < position_lookback \<and>
   changlun_calculate_signal [flat_bar 0 0 50] 0 = Inr None \<and>
   calculate_relative_position [flat_bar 0 0 50] = Inr MEDIUM_POS \<and>
   get_strategy_status [flat_bar 0 0 50] = Inr insufficient_data \<and>
   calculate_relative_position [] = Inl IndexError"
proof -
  have a: "length [flat_bar 0 0 50] < position_lookback" "length ([] :: Bar list) < position_lookback"
    by (simp_all add: position_lookback_def)
  show ?thesis
    using C8_short_series [OF a(1), of 0] C8_short_series [OF a(2), of 0] a(1)
    by (simp add: flat_bar_def classify_position_def)
qed

lemma points_need_alternation:
  assumes "identify_buy_sell_points strokes trend \<noteq> []"
  shows "direction (last strokes) \<noteq> direction (prev_of strokes)"
  using assms
  by (auto simp: identify_buy_sell_points_def Let_def split: if_splits)

lemma detect_divergence_alternating:
  "direction (last strokes) \<noteq> direction (prev_of strokes) \<Longrightarrow>
     detect_divergence data strokes = Inr None"
  by (simp add: detect_divergence_def Let_def)

lemma step1_reasons:
  "set (d_reasons (step1_trend trend bsp initial_state)) \<subseteq>
     {TrendUpWithPoints bsp, TrendDownWithPoints bsp}"
  by (simp add: step1_trend_def initial_state_def)

lemma step2_reasons:
  "set (d_reasons (step2_position position st)) \<subseteq>
     set (d_reasons st) \<union> {PositionLowSafetyMargin, PositionHighCaution, PositionHighLimitedProfit}"
  by (auto simp: step2_position_def)

lemma step4_reasons:
  "set (d_reasons (step4_emotion emo st)) \<subseteq>
     set (d_reasons st) \<union> {RsiExtremeOversold (rsi_value emo), RsiExtremeOverbought (rsi_value emo)}"
  by (auto simp: step4_emotion_def)

lemma step6_reason:
  "step6_emit now st = Some s \<Longrightarrow> reason s = d_reasons st"
  by (auto simp: step6_emit_def split: if_splits)

lemma no_divergence_no_boost:
  assumes "make_comprehensive_decision trend position bsp None emo now = Some s"
  shows "BottomDivergenceConfirmsBuy \<notin> set (reason s) \<and>
         TopDivergenceConfirmsSell \<notin> set (reason s)"
proof -
  let ?s2 = "step2_position position (step1_trend trend bsp initial_state)"
  have r: "reason s = d_reasons (step4_emotion emo ?s2)"
    using assms step6_reason [of now _ s]
    by (simp add: make_comprehensive_decision_def step3_divergence_def step5_keeps)
  have "set (d_reasons (step4_emotion emo ?s2)) \<subseteq>
      {TrendUpWithPoints bsp, TrendDownWithPoints bsp} \<union>
      {PositionLowSafetyMargin, PositionHighCaution, PositionHighLimitedProfit} \<union>
      {RsiExtremeOversold (rsi_value emo), RsiExtremeOverbought (rsi_value emo)}"
    using step1_reasons [of trend bsp] step2_reasons [of position "step1_trend trend bsp initial_state"]
      step4_reasons [of emo ?s2]
    by blast
  then show ?thesis unfolding r by auto
qed

text \<open>
  C9: the divergence boost of step 3 is unreachable. Whenever the divergence detector and the
  classifier run on the same strokes and the composer emits a signal from their results, the
  detector has returned none, the signal carries neither divergence reason, and it is the
  signal the composer emits without any divergence: points are classified only when the last
  two strokes differ in direction, a divergence is reported only when they agree.
\<close>

theorem C9_divergence_boost_unreachable:
  assumes "detect_divergence data strokes = Inr dv"
    and "make_comprehensive_decision trend position
           (identify_buy_sell_points strokes trend) dv emo now = Some s"
  shows "dv = None \<and>
         BottomDivergenceConfirmsBuy \<notin> set (reason s) \<and>
         TopDivergenceConfirmsSell \<notin> set (reason s) \<and>
         make_comprehensive_decision trend position
           (identify_buy_sell_points strokes trend) None emo now = Some s"
proof -
  have "identify_buy_sell_points strokes trend \<noteq> []"
    using assms(2) no_points_no_signal [of trend position dv emo now] by auto
  then have "detect_divergence data strokes = Inr None"
    by (intro detect_divergence_alternating points_need_alternation)
  with assms(1) have d: "dv = None" by simp
  with assms(2) no_divergence_no_boost show ?thesis by blast
qed

lemma up_up_down_facts:
  "identify_buy_sell_points up_up_down_strokes UP = [BUY_2]"
  "detect_divergence fifty_bars up_up_down_strokes = Inr None"
proof -
  show "identify_buy_sell_points up_up_down_strokes UP = [BUY_2]"
    by (intro buy2_points)
      (simp_all add: up_up_down_strokes_def prev_of_def mk_stroke_def mk_fractal_def)
  show "detect_divergence fifty_bars up_up_down_strokes = Inr None"
    by (intro detect_divergence_alternating)
      (simp add: up_up_down_strokes_def prev_of_def mk_stroke_def)
qed

text \<open>
  Witness for C9: the strokes up, up, down with a retracement of 0.40, in an up trend at a
  low position: a buy signal of confidence 0.9 is emitted, without the boost.
\<close>

theorem C9_divergence_boost_unreachable_witness:
  "detect_divergence fifty_bars up_up_down_strokes = Inr None \<and>
   make_comprehensive_decision UP LOW (identify_buy_sell_points up_up_down_strokes UP)
     None calm_emotion 0 =
     Some \<lparr>signal_type = BUY, strength = STRONG, confidence = 9/10,
           reason = [TrendUpWithPoints [BUY_2], PositionLowSafetyMargin], timestamp = 0\<rparr> \<and>
   BottomDivergenceConfirmsBuy \<notin>
     set [TrendUpWithPoints [BUY_2], PositionLowSafetyMargin]"
proof -
  let ?s = "\<lparr>signal_type = BUY, strength = STRONG, confidence = 9/10,
           reason = [TrendUpWithPoints [BUY_2], PositionLowSafetyMargin], timestamp = 0\<rparr>"
  have h1: "detect_divergence fifty_bars up_up_down_strokes = Inr None"
    by (rule up_up_down_facts)
  have h2: "make_comprehensive_decision UP LOW (identify_buy_sell_points up_up_down_strokes UP)
     None calm_emotion 0 = Some ?s"
    by (simp add: up_up_down_facts buy2_low_decision)
  from C9_divergence_boost_unreachable [OF h1 h2]
  have "BottomDivergenceConfirmsBuy \<notin> set (reason ?s)" by blast
  then show ?thesis using h1 h2 by simp
qed

section \<open>The pipeline as a whole\<close>

text \<open>
  The strokes built by \<open>_identify_strokes\<close> alternate in direction: each stroke starts at
  the fractal where the previous one ended, and ends at a fractal of the other type.
\<close>

lemma strokes_loop_alternate:
  "distinct_adj (map direction (strokes_loop cur fs)) \<and>
   (strokes_loop cur fs \<noteq> [] \<longrightarrow>
      direction (hd (strokes_loop cur fs)) = (if f_type cur = bottom then up else down))"
proof (induction fs arbitrary: cur)
  case Nil
  then show ?case by simp
next
  case (Cons nxt fs)
  show ?case
  proof (cases "f_type cur \<noteq> f_type nxt \<and>
      int (f_index nxt) - int (f_index cur) \<ge> int min_k_for_stroke")
    case False
    then show ?thesis using Cons.IH [of cur] by auto
  next
    case True
    then have ty: "f_type cur = bottom \<and> f_type nxt = top \<or>
        f_type cur = top \<and> f_type nxt = bottom"
      by (cases "f_type cur"; cases "f_type nxt") auto
    show ?thesis
    proof (cases "strokes_loop nxt fs")
      case Nil
      then show ?thesis using True ty by auto
    next
      case (Cons s rest)
      then have "distinct_adj (map direction (s # rest))"
        and "direction s = (if f_type nxt = bottom then up else down)"
        using Cons.IH [of nxt] by auto
      then show ?thesis using True ty Cons by auto
    qed
  qed
qed

lemma identify_strokes_alternate:
  "distinct_adj (map direction (identify_strokes fractals))"
  by (simp add: identify_strokes_def strokes_loop_alternate)

lemma length_three: "length xs = 3 \<Longrightarrow> \<exists>a b c. xs = [a, b, c]"
  by (auto simp: eval_nat_numeral length_Suc_conv)

lemma length_two: "length xs = 2 \<Longrightarrow> \<exists>a b. xs = [a, b]"
  by (auto simp: eval_nat_numeral length_Suc_conv)

lemma last_three:
  assumes "3 \<le> length xs"
  obtains ys a b c where "xs = ys @ [a, b, c]"
proof -
  have "length (drop (length xs - 3) xs) = 3" using assms by simp
  then obtain a b c where "drop (length xs - 3) xs = [a, b, c]"
    using length_three by blast
  then have "xs = take (length xs - 3) xs @ [a, b, c]"
    by (metis append_take_drop_id)
  then show ?thesis by (rule that)
qed

lemma last_two:
  assumes "2 \<le> length xs"
  obtains ys a b where "xs = ys @ [a, b]"
proof -
  have "length (drop (length xs - 2) xs) = 2" using assms by simp
  then obtain a b where "drop (length xs - 2) xs = [a, b]"
    using length_two by blast
  then have "xs = take (length xs - 2) xs @ [a, b]"
    by (metis append_take_drop_id)
  then show ?thesis by (rule that)
qed

text \<open>
  On alternating strokes the majority of the last three strokes has the direction of the
  latest one, so an up trend comes with a latest up-stroke and a down trend with a latest
  down-stroke: no point is classified, and no divergence is found.
\<close>

lemma alternating_no_points:
  assumes alt: "distinct_adj (map direction ss)"
    and tr: "analyze_trend data ss = Inr trend"
  shows "identify_buy_sell_points ss trend = []"
proof (cases "3 \<le> length ss")
  case False
  then show ?thesis by (simp add: identify_buy_sell_points_def Let_def)
next
  case True
  then obtain ys a b c where ss: "ss = ys @ [a, b, c]" by (rule last_three)
  from alt have ab: "direction a \<noteq> direction b" and bc: "direction b \<noteq> direction c"
    by (simp_all add: ss distinct_adj_append_iff)
  have l: "last ss = c" "prev_of ss = b" "drop (length ss - 3) ss = [a, b, c]"
    by (simp_all add: ss prev_of_def nth_append)
  show ?thesis
  proof (cases "direction c")
    case up
    with ab bc have d: "direction b = down" "direction a = up"
      by (cases "direction b"; cases "direction a"; simp)+
    have "trend \<noteq> DOWN"
      using tr True
      by (auto simp: analyze_trend_def l count_direction_def up d Let_def
          split: sum.splits if_splits)
    then show ?thesis
      by (simp add: identify_buy_sell_points_def Let_def l up)
  next
    case down
    with ab bc have d: "direction b = up" "direction a = down"
      by (cases "direction b"; cases "direction a"; simp)+
    have "trend \<noteq> UP"
      using tr True
      by (auto simp: analyze_trend_def l count_direction_def down d Let_def
          split: sum.splits if_splits)
    then show ?thesis
      by (simp add: identify_buy_sell_points_def Let_def l down)
  qed
qed

lemma alternating_no_divergence:
  assumes "distinct_adj (map direction ss)"
  shows "detect_divergence data ss = Inr None"
proof (cases "2 \<le> length ss")
  case False
  then show ?thesis by (simp add: detect_divergence_def)
next
  case True
  then obtain ys a b where ss: "ss = ys @ [a, b]" by (rule last_two)
  have "last ss = b" "prev_of ss = a"
    by (simp_all add: ss prev_of_def nth_append)
  moreover have "direction a \<noteq> direction b"
    using assms by (simp add: ss distinct_adj_append_iff)
  ultimately show ?thesis by (intro detect_divergence_alternating) simp
qed

lemma analyze_trend_total: "data \<noteq> [] \<Longrightarrow> \<exists>t. analyze_trend data ss = Inr t"
  by (simp add: analyze_trend_def iloc_last_def Let_def)

lemma relative_position_total: "data \<noteq> [] \<Longrightarrow> \<exists>p. calculate_relative_position data = Inr p"
  by (simp add: calculate_relative_position_def iloc_last_def Let_def)

lemma monitor_emotion_total: "data \<noteq> [] \<Longrightarrow> \<exists>e. monitor_emotion_indicators data = Inr e"
  by (simp add: monitor_emotion_indicators_def iloc_last_def Let_def)

text \<open>
  Hence \<open>calculate_signal\<close> returns no signal on every series: the scenarios above exercise
  the classifier, the detector and the composer on their own inputs.
\<close>

lemma changlun_calculate_signal_never_emits:
  "changlun_calculate_signal data now = Inr None"
proof (cases "length data < position_lookback")
  case True
  then show ?thesis by (simp add: changlun_calculate_signal_def)
next
  case False
  then have ne: "data \<noteq> []" by (auto simp: position_lookback_def)
  let ?ss = "identify_strokes (identify_fractals data)"
  have alt: "distinct_adj (map direction ?ss)" by (rule identify_strokes_alternate)
  obtain trend where tr: "analyze_trend data ?ss = Inr trend"
    using analyze_trend_total [OF ne] by blast
  obtain pos where po: "calculate_relative_position data = Inr pos"
    using relative_position_total [OF ne] by blast
  obtain emo where em: "monitor_emotion_indicators data = Inr emo"
    using monitor_emotion_total [OF ne] by blast
  have "identify_buy_sell_points ?ss trend = []"
    by (rule alternating_no_points [OF alt tr])
  then show ?thesis
    using False
    by (simp add: changlun_calculate_signal_def Let_def tr po em
        alternating_no_divergence [OF alt] no_points_no_signal)
qed

end
